theory Spec2Isabelle
  imports Main
begin

section \<open>JavaScript strings\<close>

text \<open>
  A JavaScript string is a sequence of UTF-16 code units. The scripts use four string
  operations: \<^verbatim>\<open>trim\<close>, \<^verbatim>\<open>startsWith\<close>, \<^verbatim>\<open>split\<close> with a one-character separator and
  \<^verbatim>\<open>toLowerCase\<close>. A literal of the source is written \<open>lit ''...''\<close>.
\<close>

type_synonym jsstring = "nat list"

definition lit :: "string \<Rightarrow> jsstring" where
  "lit s = map of_char s"

text \<open>
  The code units removed by \<^verbatim>\<open>String.prototype.trim\<close>: the WhiteSpace and LineTerminator
  productions of ECMAScript (TAB, LF, VT, FF, CR, SP, NBSP, U+1680, U+2000..U+200A, U+2028,
  U+2029, U+202F, U+205F, U+3000, U+FEFF).
\<close>

definition isWhiteSpace :: "nat \<Rightarrow> bool" where
  "isWhiteSpace c \<longleftrightarrow>
     (9 \<le> c \<and> c \<le> 13) \<or> c = 32 \<or> c = 160 \<or> c = 5760 \<or> (8192 \<le> c \<and> c \<le> 8202) \<or>
     c = 8232 \<or> c = 8233 \<or> c = 8239 \<or> c = 8287 \<or> c = 12288 \<or> c = 65279"

definition trim :: "jsstring \<Rightarrow> jsstring" where
  "trim s = rev (dropWhile isWhiteSpace (rev (dropWhile isWhiteSpace s)))"

definition startsWith :: "jsstring \<Rightarrow> jsstring \<Rightarrow> bool" where
  "startsWith s p \<longleftrightarrow> take (length p) s = p"

text \<open>
  \<^verbatim>\<open>s.split(sep)\<close> for a separator of one code unit; \<open>cur\<close> is the piece being read.
  The result is never empty: \<^verbatim>\<open>''.split(';')\<close> is \<^verbatim>\<open>['']\<close>.
\<close>

fun splitFrom :: "nat \<Rightarrow> jsstring \<Rightarrow> jsstring \<Rightarrow> jsstring list" where
  "splitFrom sep cur [] = [cur]"
| "splitFrom sep cur (c # cs) =
     (if c = sep then cur # splitFrom sep [] cs else splitFrom sep (cur @ [c]) cs)"

definition split :: "jsstring \<Rightarrow> nat \<Rightarrow> jsstring list" where
  "split s sep = splitFrom sep [] s"

definition semicolon :: nat where
  "semicolon = 59"

definition equalsSign :: nat where
  "equalsSign = 61"

text \<open>
  \<^verbatim>\<open>xs[i]\<close> on an array: \<^verbatim>\<open>undefined\<close> (here \<open>None\<close>) out of range.
\<close>

definition element :: "'a list \<Rightarrow> nat \<Rightarrow> 'a option" where
  "element xs i = (if i < length xs then Some (xs ! i) else None)"

text \<open>
  Truthiness of a value that is a string or \<^verbatim>\<open>undefined\<close>: only a non-empty string is
  truthy.
\<close>

definition truthy :: "jsstring option \<Rightarrow> bool" where
  "truthy v = (case v of None \<Rightarrow> False | Some s \<Rightarrow> s \<noteq> [])"

text \<open>
  \<^verbatim>\<open>toLowerCase\<close> on the letters A-Z and on KELVIN SIGN (U+212A, whose lower case is k).
  The scripts compare the result with \<^verbatim>\<open>'yes'\<close> and \<^verbatim>\<open>'y'\<close> only, and no other code
  point has \<^verbatim>\<open>y\<close>, \<^verbatim>\<open>e\<close> or \<^verbatim>\<open>s\<close> as its lower case, so the comparison is exact for
  every answer.
\<close>

definition lowerUnit :: "nat \<Rightarrow> nat" where
  "lowerUnit c = (if 65 \<le> c \<and> c \<le> 90 then c + 32 else if c = 8490 then 107 else c)"

definition toLowerCase :: "jsstring \<Rightarrow> jsstring" where
  "toLowerCase s = map lowerUnit s"

section \<open>Errors, requests and responses\<close>

text \<open>
  The exceptions a run can end with: the two \<^verbatim>\<open>throw new Error(...)\<close> of the credential
  code, the one of the branch script's template check, a rejected \<^verbatim>\<open>axios.request\<close>
  (with the status of \<^verbatim>\<open>error.response\<close> when the server answered), a \<^verbatim>\<open>TypeError\<close>
  of the runtime, a \<^verbatim>\<open>SyntaxError\<close> of \<^verbatim>\<open>JSON.parse\<close>, and a file-system error.
\<close>

datatype error =
    NoCredential
  | NoAccessToken
  | MissingUrlTemplate
  | RequestRejected "nat option"
  | TypeError
  | SyntaxError
  | FsError

datatype url =
    AuthUrl
  | AuthUrlV2
  | ProjectsUrl nat nat
  | BranchesUrl nat
  | UsersUrl nat nat
  | RoleAssignmentsUrl jsstring
  | SetPropertyUrl

datatype http_method = GET | POST

datatype payload =
    NoData
  | FormData "(jsstring \<times> jsstring) list"
  | PropertiesData "jsstring list" "(jsstring \<times> jsstring) list option"

record request =
  verb :: http_method
  url :: url
  bearer :: "jsstring option"
  data :: payload

text \<open>
  What \<^verbatim>\<open>await axios.request(cfg)\<close> does: it resolves to a response with a status and a
  body, or it rejects (a transport failure, or a status the client refuses; with the
  default \<^verbatim>\<open>validateStatus\<close> of axios that is every status outside 200..299). A
  rejection carries the status of \<^verbatim>\<open>error.response\<close> when the server answered.
\<close>

datatype 'a reply =
    Resolved nat 'a
  | Rejected "nat option"

section \<open>Credential resolution\<close>

record config =
  customer :: jsstring
  email :: jsstring
  password :: "jsstring option"
  accesstoken :: "jsstring option"
  authUrlTemplate :: "jsstring option"
  authUrlV2Template :: "jsstring option"
  projectsUrlTemplate :: "jsstring option"
  setPropertyUrlTemplate :: "jsstring option"
  branchesUrlTemplate :: "jsstring option"

text \<open>
  \<^verbatim>\<open>v && v.trim() !== ""\<close>
\<close>

definition provided :: "jsstring option \<Rightarrow> bool" where
  "provided v = (case v of None \<Rightarrow> False | Some s \<Rightarrow> s \<noteq> [] \<and> trim s \<noteq> [])"

text \<open>
  The \<^verbatim>\<open>if / else if / else\<close> that builds \<^verbatim>\<open>authConfig\<close> (the same in every script).
\<close>

definition authConfigOf :: "config \<Rightarrow> error + request" where
  "authConfigOf c =
     (if provided (password c) then
        (case password c of
           Some pw \<Rightarrow> Inr \<lparr>verb = POST, url = AuthUrl, bearer = None,
                         data = FormData [(lit ''email'', email c), (lit ''password'', pw)]\<rparr>
         | None \<Rightarrow> Inl TypeError)
      else if provided (accesstoken c) then
        (case accesstoken c of
           Some tok \<Rightarrow> Inr \<lparr>verb = POST, url = AuthUrlV2, bearer = None,
                          data = FormData [(lit ''email'', email c), (lit ''accesstoken'', tok)]\<rparr>
         | None \<Rightarrow> Inl TypeError)
      else Inl NoCredential)"

subsection \<open>The authentication response\<close>

record auth_data =
  jwt :: "jsstring option"

record auth_response =
  set_cookie :: "jsstring list option"
  body :: "auth_data option"

text \<open>
  \<^verbatim>\<open>tokenCookie.split(';')[0].split('=')[1]\<close> on the first cookie that starts with
  \<^verbatim>\<open>access_token=\<close>.
\<close>

definition cookieToken :: "jsstring list option \<Rightarrow> jsstring option" where
  "cookieToken setCookieHeader =
     (case setCookieHeader of
        None \<Rightarrow> None
      | Some cookies \<Rightarrow>
          (case find (\<lambda>cookie. startsWith cookie (lit ''access_token='')) cookies of
             None \<Rightarrow> None
           | Some tokenCookie \<Rightarrow>
               (case element (split tokenCookie semicolon) 0 of
                  None \<Rightarrow> None
                | Some first \<Rightarrow> element (split first equalsSign) 1)))"

definition bodyJwt :: "auth_data option \<Rightarrow> jsstring option" where
  "bodyJwt d = (case d of None \<Rightarrow> None | Some b \<Rightarrow> jwt b)"

definition extractToken :: "auth_response \<Rightarrow> error + jsstring" where
  "extractToken r =
     (let token = cookieToken (set_cookie r);
          token = (if \<not> truthy token \<and> truthy (bodyJwt (body r)) then bodyJwt (body r) else token)
      in case token of
           None \<Rightarrow> Inl NoAccessToken
         | Some t \<Rightarrow> if t = [] then Inl NoAccessToken else Inr t)"

section \<open>Files, console and the state of a run\<close>

datatype path =
    ConfigJson
  | ProjectListJson
  | ProjectListCsv
  | ProjectDetailsCsv
  | BranchesListJson
  | ProjectBranchesCsv

text \<open>
  A project as the project-listing endpoint returns it (\<^verbatim>\<open>id\<close>, \<^verbatim>\<open>attributes.type\<close>,
  \<^verbatim>\<open>attributes.properties\<close>, \<^verbatim>\<open>attributes.name\<close>,
  \<^verbatim>\<open>relationships.branches.links.related\<close>) and as the scripts store it. A JSON object is
  a list of key-value pairs in insertion order. Field names carry a prefix, since the
  records share the names \<^verbatim>\<open>id\<close> and \<^verbatim>\<open>name\<close>.
\<close>

record remote_project =
  rp_id :: jsstring
  rp_type :: jsstring
  rp_properties :: "(jsstring \<times> jsstring) list"
  rp_name :: jsstring
  rp_branches :: jsstring

record project =
  p_id :: jsstring
  p_type :: jsstring
  p_properties :: "(jsstring \<times> jsstring) list"
  p_name :: jsstring
  p_branches :: jsstring

text \<open>The short form \<^verbatim>\<open>{id, name}\<close> that the user-information script stores.\<close>

record project_ref =
  ref_id :: jsstring
  ref_name :: jsstring

text \<open>A branch resource: \<^verbatim>\<open>attributes.name\<close> and \<^verbatim>\<open>relationships.project.data.id\<close>.\<close>

record branch =
  b_name :: jsstring
  b_project :: jsstring

text \<open>
  What a file holds. A CSV file is a header and rows of cells; a cell is blank, a string,
  or the compact JSON text of a properties object (\<^verbatim>\<open>JSON.stringify(project.properties)\<close>).
\<close>

datatype cell = Blank | Text jsstring | JsonText "(jsstring \<times> jsstring) list"

datatype content =
    ConfigDoc config
  | ProjectsDoc "project list"
  | ProjectRefsDoc "project_ref list"
  | BranchesDoc "branch list"
  | CsvDoc "jsstring list" "cell list list"
  | OtherContent

text \<open>
  A path is absent (\<^verbatim>\<open>fs.access\<close> fails with \<^verbatim>\<open>ENOENT\<close>), present, or inaccessible
  (\<^verbatim>\<open>fs.access\<close> fails with another code).
\<close>

datatype node = Absent | Present content | Inaccessible

datatype logline =
    Exiting
  | Deleted path
  | Saved path
  | HttpError nat
  | PropertiesSet jsstring
  | ItemHttpError jsstring nat
  | ItemError jsstring error
  | FetchError error
  | ErrorLogged error

record state =
  files :: "path \<Rightarrow> node"
  requests :: "request list"
  console :: "logline list"

text \<open>
  A statement either goes on with a value, or leaves the function: by \<^verbatim>\<open>return\<close> or by
  an exception.
\<close>

datatype exit = Return | Throw error

type_synonym 'a prog = "state \<Rightarrow> (exit + 'a) \<times> state"

definition andThen :: "'a prog \<Rightarrow> ('a \<Rightarrow> 'b prog) \<Rightarrow> 'b prog" where
  "andThen m f = (\<lambda>s. case m s of (Inl e, s') \<Rightarrow> (Inl e, s') | (Inr x, s') \<Rightarrow> f x s')"

definition pure :: "'a \<Rightarrow> 'a prog" where
  "pure x = (\<lambda>s. (Inr x, s))"

definition throw :: "error \<Rightarrow> 'a prog" where
  "throw e = (\<lambda>s. (Inl (Throw e), s))"

definition log :: "logline \<Rightarrow> unit prog" where
  "log l = (\<lambda>s. (Inr (), s\<lparr>console := console s @ [l]\<rparr>))"

definition unlink :: "path \<Rightarrow> unit prog" where
  "unlink p = (\<lambda>s. case files s p of
       Present c \<Rightarrow> (Inr (), s\<lparr>files := (files s)(p := Absent)\<rparr>)
     | Absent \<Rightarrow> (Inl (Throw FsError), s)
     | Inaccessible \<Rightarrow> (Inl (Throw FsError), s))"

definition writeFile :: "path \<Rightarrow> content \<Rightarrow> unit prog" where
  "writeFile p c = (\<lambda>s. case files s p of
       Inaccessible \<Rightarrow> (Inl (Throw FsError), s)
     | Absent \<Rightarrow> (Inr (), s\<lparr>files := (files s)(p := Present c)\<rparr>)
     | Present old \<Rightarrow> (Inr (), s\<lparr>files := (files s)(p := Present c)\<rparr>))"

definition readFile :: "path \<Rightarrow> content prog" where
  "readFile p = (\<lambda>s. case files s p of
       Present c \<Rightarrow> (Inr c, s)
     | Absent \<Rightarrow> (Inl (Throw FsError), s)
     | Inaccessible \<Rightarrow> (Inl (Throw FsError), s))"

text \<open>
  \<^verbatim>\<open>await axios.request(cfg)\<close>: the request is recorded and the server's reply is handed
  back; the caller decides what a rejection does.
\<close>

definition send :: "(request \<Rightarrow> 'a reply) \<Rightarrow> request \<Rightarrow> 'a reply prog" where
  "send server r = (\<lambda>s. (Inr (server r), s\<lparr>requests := requests s @ [r]\<rparr>))"

text \<open>A request outside any inner \<^verbatim>\<open>try\<close>: a rejection is an exception.\<close>

definition request :: "(request \<Rightarrow> 'a reply) \<Rightarrow> request \<Rightarrow> (nat \<times> 'a) prog" where
  "request server r =
     andThen (send server r) (\<lambda>reply.
       case reply of Resolved status b \<Rightarrow> pure (status, b) | Rejected e \<Rightarrow> throw (RequestRejected e))"

section \<open>Checking for existing output\<close>

text \<open>\<^verbatim>\<open>['yes', 'y'].includes(answer.toLowerCase())\<close>\<close>

definition affirmative :: "jsstring \<Rightarrow> bool" where
  "affirmative answer \<longleftrightarrow> toLowerCase answer \<in> set [lit ''yes'', lit ''y'']"

text \<open>
  \<^verbatim>\<open>deleteFileIfExists\<close> of the user-information script; \<open>answer p\<close> is what the operator
  types at the prompt about \<open>p\<close>. The other scripts have the same statements inline, with
  \<^verbatim>\<open>return\<close> in place of \<^verbatim>\<open>return false\<close>.
\<close>

definition fileExists :: "path \<Rightarrow> bool prog" where
  "fileExists p = (\<lambda>s. case files s p of
       Present c \<Rightarrow> (Inr True, s)
     | Absent \<Rightarrow> (Inr False, s)
     | Inaccessible \<Rightarrow> (Inl (Throw FsError), s))"

definition deleteFileIfExists :: "(path \<Rightarrow> jsstring) \<Rightarrow> path \<Rightarrow> bool prog" where
  "deleteFileIfExists answer p =
     andThen (fileExists p) (\<lambda>exists.
       if exists then
         (if \<not> affirmative (answer p) then andThen (log Exiting) (\<lambda>_. pure False)
          else andThen (unlink p) (\<lambda>_. andThen (log (Deleted p)) (\<lambda>_. pure True)))
       else pure True)"

definition confirmDelete :: "(path \<Rightarrow> jsstring) \<Rightarrow> path \<Rightarrow> unit prog" where
  "confirmDelete answer p =
     andThen (fileExists p) (\<lambda>exists.
       if exists then
         (if \<not> affirmative (answer p) then andThen (log Exiting) (\<lambda>_. (\<lambda>s. (Inl Return, s)))
          else andThen (unlink p) (\<lambda>_. log (Deleted p)))
       else pure ())"

section \<open>The servers and the operator\<close>

text \<open>
  A user resource of the \<^verbatim>\<open>/users\<close> endpoint, which is also the shape the script stores
  (\<^verbatim>\<open>{id, name, email, groupIds}\<close>), and the resources of the \<^verbatim>\<open>included\<close> array of a
  role-assignments response, told apart by their \<^verbatim>\<open>type\<close>.
\<close>

record user =
  user_id :: jsstring
  user_name :: jsstring
  user_email :: jsstring
  groupIds :: "jsstring list"

datatype resource =
    UsersResource jsstring jsstring "jsstring list"
  | GroupsResource jsstring jsstring
  | OtherResource

text \<open>
  \<open>answer p\<close> is what the operator types at the prompt about \<open>p\<close>;
  \<open>substitute t c\<close> is \<^verbatim>\<open>t.replace('{customer}', c)\<close>, a function of the runtime.
\<close>

record world =
  answer :: "path \<Rightarrow> jsstring"
  substitute :: "jsstring \<Rightarrow> jsstring \<Rightarrow> jsstring"
  authServer :: "request \<Rightarrow> auth_response reply"
  projectServer :: "request \<Rightarrow> remote_project list reply"
  branchServer :: "request \<Rightarrow> branch list reply"
  userServer :: "request \<Rightarrow> user list reply"
  roleServer :: "request \<Rightarrow> resource list reply"
  propertyServer :: "request \<Rightarrow> unit reply"

section \<open>Authentication\<close>

definition authenticate :: "(request \<Rightarrow> auth_response reply) \<Rightarrow> config \<Rightarrow> jsstring prog" where
  "authenticate server c =
     (case authConfigOf c of
        Inl e \<Rightarrow> throw e
      | Inr authConfig \<Rightarrow>
          andThen (request server authConfig) (\<lambda>(status, authResponse).
            case extractToken authResponse of Inl e \<Rightarrow> throw e | Inr token \<Rightarrow> pure token))"

text \<open>
  \<^verbatim>\<open>JSON.parse(await fs.readFile(configPath, 'utf8'))\<close>. A JSON document of another
  shape parses, and every field the scripts read from it is undefined.
\<close>

definition undefinedConfig :: config where
  "undefinedConfig =
     \<lparr>customer = lit ''undefined'', email = lit ''undefined'', password = None,
      accesstoken = None, authUrlTemplate = None, authUrlV2Template = None,
      projectsUrlTemplate = None, setPropertyUrlTemplate = None, branchesUrlTemplate = None\<rparr>"

definition readConfig :: "config prog" where
  "readConfig =
     andThen (readFile ConfigJson) (\<lambda>c.
       case c of
         ConfigDoc config \<Rightarrow> pure config
       | ProjectsDoc ps \<Rightarrow> pure undefinedConfig
       | ProjectRefsDoc ps \<Rightarrow> pure undefinedConfig
       | BranchesDoc bs \<Rightarrow> pure undefinedConfig
       | CsvDoc h rs \<Rightarrow> throw SyntaxError
       | OtherContent \<Rightarrow> throw SyntaxError)"

text \<open>
  \<^verbatim>\<open>config.t.replace('{customer}', config.customer)\<close>, which is a \<^verbatim>\<open>TypeError\<close> when the
  template \<open>t\<close> is missing.
\<close>

definition replaceCustomer :: "jsstring option \<Rightarrow> unit prog" where
  "replaceCustomer t = (case t of None \<Rightarrow> throw TypeError | Some u \<Rightarrow> pure ())"

section \<open>Pagination\<close>

text \<open>
  The \<^verbatim>\<open>while (moreProjects)\<close> loop of the project and user listings; the scripts differ in
  \<open>limit\<close> (5, 500, 50), in the URL and in how a page's items are formatted. The loop runs as
  long as the server keeps sending full pages, so its result is an option: \<open>None\<close> is a run
  that never leaves the loop.
\<close>

partial_function (option) paginate ::
  "(request \<Rightarrow> 'r list reply) \<Rightarrow> (nat \<Rightarrow> nat \<Rightarrow> url) \<Rightarrow> ('r \<Rightarrow> 'p) \<Rightarrow> jsstring \<Rightarrow> nat \<Rightarrow>
   nat \<Rightarrow> 'p list \<Rightarrow> state \<Rightarrow> ((exit + 'p list) \<times> state) option" where
  "paginate server pageUrl format token limit offset allItems s =
     (case send server \<lparr>verb = GET, url = pageUrl limit offset, bearer = Some token,
                         data = NoData\<rparr> s of
        (Inl e, s1) \<Rightarrow> Some (Inl e, s1)
      | (Inr (Rejected e), s1) \<Rightarrow> Some (Inl (Throw (RequestRejected e)), s1)
      | (Inr (Resolved status pageData), s1) \<Rightarrow>
          if status = 200 then
            (if length pageData = limit
             then paginate server pageUrl format token limit (offset + limit)
                    (allItems @ map format pageData) s1
             else Some (Inr (allItems @ map format pageData), s1))
          else Some (Inr allItems, s1\<lparr>console := console s1 @ [HttpError status]\<rparr>))"

declare paginate.simps [code]

text \<open>The request of one turn of the loop.\<close>

definition pageRequest :: "(nat \<Rightarrow> nat \<Rightarrow> url) \<Rightarrow> jsstring \<Rightarrow> nat \<Rightarrow> nat \<Rightarrow> request" where
  "pageRequest pageUrl token limit offset =
     \<lparr>verb = GET, url = pageUrl limit offset, bearer = Some token, data = NoData\<rparr>"

section \<open>The project-properties script\<close>

definition formatProject :: "remote_project \<Rightarrow> project" where
  "formatProject project =
     \<lparr>p_id = rp_id project,
      p_type = rp_type project,
      p_properties = (if length (rp_properties project) \<noteq> 0 then rp_properties project
                      else [(lit ''key'', lit ''value'')]),
      p_name = rp_name project,
      p_branches = rp_branches project\<rparr>"

datatype outcome = Completed | Stopped | Failed error

text \<open>
  The outer \<^verbatim>\<open>try / catch / finally\<close> of every script: an exception is logged and the run
  ends.
\<close>

definition finish :: "(exit + unit) \<times> state \<Rightarrow> outcome \<times> state" where
  "finish r =
     (case r of
        (Inr u, s) \<Rightarrow> (Completed, s)
      | (Inl Return, s) \<Rightarrow> (Stopped, s)
      | (Inl (Throw e), s) \<Rightarrow> (Failed e, s\<lparr>console := console s @ [ErrorLogged e]\<rparr>))"

definition continue :: "(exit + 'a) \<times> state \<Rightarrow> ('a \<Rightarrow> 'b prog) \<Rightarrow> (exit + 'b) \<times> state" where
  "continue r f = (case r of (Inl e, s) \<Rightarrow> (Inl e, s) | (Inr x, s) \<Rightarrow> f x s)"

definition projectRow :: "project \<Rightarrow> cell list" where
  "projectRow project =
     [Text (p_id project), Text (p_type project), JsonText (p_properties project),
      Text (p_name project), Text (p_branches project)]"

definition saveProjectList :: "project list \<Rightarrow> unit prog" where
  "saveProjectList allProjects =
     andThen (writeFile ProjectListJson (ProjectsDoc allProjects)) (\<lambda>_.
     andThen (log (Saved ProjectListJson)) (\<lambda>_.
     andThen (writeFile ProjectListCsv
                (CsvDoc [lit ''ID'', lit ''Type'', lit ''Properties'', lit ''Name'', lit ''Branches'']
                   (map projectRow allProjects))) (\<lambda>_.
     log (Saved ProjectListCsv))))"

definition beforeProjects :: "world \<Rightarrow> jsstring prog" where
  "beforeProjects w =
     andThen (confirmDelete (answer w) ProjectListJson) (\<lambda>_.
     andThen (confirmDelete (answer w) ProjectListCsv) (\<lambda>_.
     andThen readConfig (\<lambda>config.
     andThen (replaceCustomer (authUrlTemplate config)) (\<lambda>_.
     andThen (replaceCustomer (authUrlV2Template config)) (\<lambda>_.
     andThen (replaceCustomer (setPropertyUrlTemplate config)) (\<lambda>_.
     andThen (replaceCustomer (projectsUrlTemplate config)) (\<lambda>_.
     authenticate (authServer w) config)))))))"

definition getProjectProperties :: "world \<Rightarrow> state \<Rightarrow> (outcome \<times> state) option" where
  "getProjectProperties w s =
     map_option finish
       (case beforeProjects w s of
          (Inl e, s1) \<Rightarrow> Some (Inl e, s1)
        | (Inr token, s1) \<Rightarrow>
            map_option (\<lambda>r. continue r saveProjectList)
              (paginate (projectServer w) ProjectsUrl formatProject token 5 0 [] s1))"

section \<open>The set-properties script\<close>

text \<open>
  \<^verbatim>\<open>JSON.parse\<close> of \<^verbatim>\<open>projectList.json\<close>, read as the list of \<^verbatim>\<open>id\<close>, \<^verbatim>\<open>name\<close> and
  \<^verbatim>\<open>properties\<close> of its items; the short form has no \<^verbatim>\<open>properties\<close>. An object is
  not iterable and has no \<^verbatim>\<open>reduce\<close> (\<^verbatim>\<open>TypeError\<close>).
\<close>

record stored_project =
  sp_id :: jsstring
  sp_name :: jsstring
  sp_properties :: "(jsstring \<times> jsstring) list option"

definition parseProjectList :: "content \<Rightarrow> error + stored_project list" where
  "parseProjectList c =
     (case c of
        ProjectsDoc ps \<Rightarrow>
          Inr (map (\<lambda>p. \<lparr>sp_id = p_id p, sp_name = p_name p,
                            sp_properties = Some (p_properties p)\<rparr>) ps)
      | ProjectRefsDoc ps \<Rightarrow>
          Inr (map (\<lambda>p. \<lparr>sp_id = ref_id p, sp_name = ref_name p, sp_properties = None\<rparr>) ps)
      | ConfigDoc cfg \<Rightarrow> Inl TypeError
      | BranchesDoc bs \<Rightarrow> Inl TypeError
      | CsvDoc h rs \<Rightarrow> Inl SyntaxError
      | OtherContent \<Rightarrow> Inl SyntaxError)"

definition readProjectList :: "stored_project list prog" where
  "readProjectList =
     andThen (readFile ProjectListJson) (\<lambda>c.
       case parseProjectList c of Inl e \<Rightarrow> throw e | Inr ps \<Rightarrow> pure ps)"

text \<open>
  The \<^verbatim>\<open>for (const project of projectList)\<close> loop: the request is inside a \<^verbatim>\<open>try\<close>
  whose \<^verbatim>\<open>catch\<close> logs and goes on.
\<close>

fun setEach :: "(request \<Rightarrow> unit reply) \<Rightarrow> jsstring \<Rightarrow> stored_project list \<Rightarrow> unit prog" where
  "setEach server token [] s = (Inr (), s)"
| "setEach server token (project # rest) s =
     (case send server \<lparr>verb = POST, url = SetPropertyUrl, bearer = Some token,
                         data = PropertiesData [sp_id project] (sp_properties project)\<rparr> s of
        (Inl e, s1) \<Rightarrow> (Inl e, s1)
      | (Inr (Rejected e), s1) \<Rightarrow>
          setEach server token rest
            (s1\<lparr>console := console s1 @ [ItemError (sp_id project) (RequestRejected e)]\<rparr>)
      | (Inr (Resolved status b), s1) \<Rightarrow>
          if status = 200 then
            setEach server token rest
              (s1\<lparr>console := console s1 @ [PropertiesSet (sp_id project)]\<rparr>)
          else
            setEach server token rest
              (s1\<lparr>console := console s1 @ [ItemHttpError (sp_id project) status]\<rparr>))"

definition setProjectProperties :: "world \<Rightarrow> state \<Rightarrow> outcome \<times> state" where
  "setProjectProperties w s =
     finish
       (andThen readConfig (\<lambda>config.
        andThen (replaceCustomer (authUrlTemplate config)) (\<lambda>_.
        andThen (replaceCustomer (authUrlV2Template config)) (\<lambda>_.
        andThen (replaceCustomer (setPropertyUrlTemplate config)) (\<lambda>_.
        andThen (authenticate (authServer w) config) (\<lambda>token.
        andThen readProjectList (\<lambda>projectList.
        setEach (propertyServer w) token projectList)))))) s)"

section \<open>The branches script\<close>

subsection \<open>Objects used as dictionaries\<close>

text \<open>
  \<^verbatim>\<open>projectMap\<close> is an object literal \<^verbatim>\<open>{}\<close> indexed by project id. Besides its own
  properties (kept here in creation order) such an object answers for the names it
  inherits from \<^verbatim>\<open>Object.prototype\<close>, and an assignment to \<^verbatim>\<open>__proto__\<close> replaces its
  prototype instead of creating a property.
\<close>

record entry =
  e_name :: jsstring
  e_branches :: "jsstring list"

record projectMap =
  own :: "(jsstring \<times> entry) list"
  proto :: "entry option"

definition protoName :: jsstring where
  "protoName = lit ''__proto__''"

text \<open>The method names of \<^verbatim>\<open>Object.prototype\<close>.\<close>

definition inheritedMethods :: "jsstring list" where
  "inheritedMethods =
     [lit ''constructor'', lit ''__defineGetter__'', lit ''__defineSetter__'',
      lit ''hasOwnProperty'', lit ''__lookupGetter__'', lit ''__lookupSetter__'',
      lit ''isPrototypeOf'', lit ''propertyIsEnumerable'', lit ''toString'', lit ''valueOf'',
      lit ''toLocaleString'']"

text \<open>\<^verbatim>\<open>obj[k] = v\<close> for a key other than \<^verbatim>\<open>__proto__\<close>: an own property keeps its place.\<close>

fun assign :: "(jsstring \<times> 'v) list \<Rightarrow> jsstring \<Rightarrow> 'v \<Rightarrow> (jsstring \<times> 'v) list" where
  "assign [] k v = [(k, v)]"
| "assign ((k', v') # kvs) k v = (if k' = k then (k, v) # kvs else (k', v') # assign kvs k v)"

definition setEntry :: "projectMap \<Rightarrow> jsstring \<Rightarrow> entry \<Rightarrow> projectMap" where
  "setEntry m k e = (if k = protoName then m\<lparr>proto := Some e\<rparr> else m\<lparr>own := assign (own m) k e\<rparr>)"

text \<open>What \<^verbatim>\<open>projectMap[k]\<close> evaluates to.\<close>

datatype lookup =
    Undefined
  | OwnEntry entry
  | PrototypeEntry entry
  | ObjectPrototype
  | InheritedName jsstring
  | InheritedBranches
  | InheritedMethod

definition getEntry :: "projectMap \<Rightarrow> jsstring \<Rightarrow> lookup" where
  "getEntry m k =
     (if k = protoName then (case proto m of Some e \<Rightarrow> PrototypeEntry e | None \<Rightarrow> ObjectPrototype)
      else case map_of (own m) k of
        Some e \<Rightarrow> OwnEntry e
      | None \<Rightarrow>
          (case proto m of
             Some e \<Rightarrow>
               if k = lit ''name'' then InheritedName (e_name e)
               else if k = lit ''branches'' then InheritedBranches
               else if k \<in> set inheritedMethods then InheritedMethod
               else Undefined
           | None \<Rightarrow> if k \<in> set inheritedMethods then InheritedMethod else Undefined))"

text \<open>
  The order of \<^verbatim>\<open>Object.values\<close> and \<^verbatim>\<open>for ... in\<close> over own properties: array indices
  (canonical decimal numerals below \<open>2^32 - 1\<close>) in ascending order, then the other keys
  in creation order.
\<close>

definition isDigit :: "nat \<Rightarrow> bool" where
  "isDigit c \<longleftrightarrow> 48 \<le> c \<and> c \<le> 57"

definition indexValue :: "jsstring \<Rightarrow> nat" where
  "indexValue k = foldl (\<lambda>n c. 10 * n + (c - 48)) 0 k"

definition isArrayIndex :: "jsstring \<Rightarrow> bool" where
  "isArrayIndex k \<longleftrightarrow>
     k \<noteq> [] \<and> list_all isDigit k \<and> (k = [48] \<or> take 1 k \<noteq> [48]) \<and> indexValue k < 4294967295"

definition ownProperties :: "(jsstring \<times> 'v) list \<Rightarrow> (jsstring \<times> 'v) list" where
  "ownProperties kvs =
     sort_key (\<lambda>kv. indexValue (fst kv)) (filter (\<lambda>kv. isArrayIndex (fst kv)) kvs) @
     filter (\<lambda>kv. \<not> isArrayIndex (fst kv)) kvs"

subsection \<open>Correlating projects and branches\<close>

text \<open>
  \<^verbatim>\<open>projectList.reduce((map, project) => { map[project.id] = {name, branches: []}; ... }, {})\<close>
\<close>

definition buildProjectMap :: "stored_project list \<Rightarrow> projectMap" where
  "buildProjectMap projectList =
     foldl (\<lambda>m project. setEntry m (sp_id project) \<lparr>e_name = sp_name project, e_branches = []\<rparr>)
       \<lparr>own = [], proto = None\<rparr> projectList"

text \<open>
  The body of \<^verbatim>\<open>branchesList.data.forEach\<close>:
  \<^verbatim>\<open>if (projectMap[projectId]) { projectMap[projectId].branches.push(name) }\<close>. A truthy
  value without a \<^verbatim>\<open>branches\<close> array makes \<^verbatim>\<open>.push\<close> a \<^verbatim>\<open>TypeError\<close>.
\<close>

definition addBranch :: "projectMap \<Rightarrow> branch \<Rightarrow> error + projectMap" where
  "addBranch m b =
     (case getEntry m (b_project b) of
        Undefined \<Rightarrow> Inr m
      | OwnEntry e \<Rightarrow>
          Inr (m\<lparr>own := assign (own m) (b_project b) (e\<lparr>e_branches := e_branches e @ [b_name b]\<rparr>)\<rparr>)
      | PrototypeEntry e \<Rightarrow> Inr (m\<lparr>proto := Some (e\<lparr>e_branches := e_branches e @ [b_name b]\<rparr>)\<rparr>)
      | ObjectPrototype \<Rightarrow> Inl TypeError
      | InheritedName n \<Rightarrow> if n = [] then Inr m else Inl TypeError
      | InheritedBranches \<Rightarrow> Inl TypeError
      | InheritedMethod \<Rightarrow> Inl TypeError)"

fun addBranches :: "projectMap \<Rightarrow> branch list \<Rightarrow> error + projectMap" where
  "addBranches m [] = Inr m"
| "addBranches m (b # bs) = (case addBranch m b of Inl e \<Rightarrow> Inl e | Inr m' \<Rightarrow> addBranches m' bs)"

definition correlate :: "stored_project list \<Rightarrow> branch list \<Rightarrow> error + projectMap" where
  "correlate projectList branches = addBranches (buildProjectMap projectList) branches"

subsection \<open>The CSV of projects and branches\<close>

text \<open>The decimal numeral of a number, as a template literal prints it.\<close>

fun decimal :: "nat \<Rightarrow> jsstring" where
  "decimal n = (if n < 10 then [48 + n] else decimal (n div 10) @ [48 + n mod 10])"

declare decimal.simps [simp del]

definition branchField :: "nat \<Rightarrow> jsstring" where
  "branchField i = lit ''branchName'' @ decimal i"

text \<open>
  \<^verbatim>\<open>{ projectName: project.name, ...project.branches.reduce((obj, branchName, index) => {
  obj[`branchName${index + 1}`] = branchName; return obj; }, {}) }\<close>
\<close>

definition branchObject :: "jsstring list \<Rightarrow> (jsstring \<times> jsstring) list" where
  "branchObject bs =
     foldl (\<lambda>obj (index, branchName). assign obj (branchField (index + 1)) branchName) []
       (zip [0..<length bs] bs)"

definition csvRecord :: "entry \<Rightarrow> (jsstring \<times> jsstring) list" where
  "csvRecord project =
     foldl (\<lambda>obj (k, v). assign obj k v) [(lit ''projectName'', e_name project)]
       (branchObject (e_branches project))"

text \<open>
  \<^verbatim>\<open>Math.max(...counts)\<close> as \<^verbatim>\<open>Array.from({length: ...})\<close> uses it: with no record the
  maximum is \<^verbatim>\<open>-Infinity\<close> and the length is 0.
\<close>

definition maxCount :: "nat list \<Rightarrow> nat" where
  "maxCount counts = foldr max counts 0"

definition csvFields :: "(jsstring \<times> jsstring) list list \<Rightarrow> jsstring list" where
  "csvFields csvData =
     lit ''projectName'' #
     map (\<lambda>i. branchField (i + 1)) [0..<maxCount (map (\<lambda>project. length project - 1) csvData)]"

text \<open>
  \<^verbatim>\<open>parseAsync(csvData, {fields, header: true})\<close> of the json2csv library: the header is
  the list of fields, and a row has, for each field, the record's value or a blank cell.
\<close>

definition csvRow :: "jsstring list \<Rightarrow> (jsstring \<times> jsstring) list \<Rightarrow> cell list" where
  "csvRow columns r = map (\<lambda>f. case map_of r f of None \<Rightarrow> Blank | Some v \<Rightarrow> Text v) columns"

definition parseAsync :: "(jsstring \<times> jsstring) list list \<Rightarrow> jsstring list \<Rightarrow> content" where
  "parseAsync csvData columns = CsvDoc columns (map (csvRow columns) csvData)"

definition objectValues :: "projectMap \<Rightarrow> entry list" where
  "objectValues m = map snd (ownProperties (own m))"

definition exportBranches :: "entry list \<Rightarrow> content" where
  "exportBranches projects =
     (let csvData = map csvRecord projects in parseAsync csvData (csvFields csvData))"

definition branchesCsv :: "projectMap \<Rightarrow> content" where
  "branchesCsv m = exportBranches (objectValues m)"

text \<open>
  \<^verbatim>\<open>branchesList.json\<close> holds \<^verbatim>\<open>{data: [...]}\<close>; on an array \<^verbatim>\<open>.data\<close> is undefined and
  \<^verbatim>\<open>.forEach\<close> a \<^verbatim>\<open>TypeError\<close>.
\<close>

definition parseBranchesList :: "content \<Rightarrow> error + branch list" where
  "parseBranchesList c =
     (case c of
        BranchesDoc bs \<Rightarrow> Inr bs
      | ProjectsDoc ps \<Rightarrow> Inl TypeError
      | ProjectRefsDoc ps \<Rightarrow> Inl TypeError
      | ConfigDoc cfg \<Rightarrow> Inl TypeError
      | CsvDoc h rs \<Rightarrow> Inl SyntaxError
      | OtherContent \<Rightarrow> Inl SyntaxError)"

text \<open>
  \<^verbatim>\<open>associateProjectsToBranches\<close>, with its own \<^verbatim>\<open>try / catch\<close>: an error is logged and
  the function returns.
\<close>

definition associateBody :: "unit prog" where
  "associateBody =
     andThen readProjectList (\<lambda>projectList.
     andThen (readFile BranchesListJson) (\<lambda>c.
       case parseBranchesList c of
         Inl e \<Rightarrow> throw e
       | Inr branches \<Rightarrow>
           (case correlate projectList branches of
              Inl e \<Rightarrow> throw e
            | Inr m \<Rightarrow>
                andThen (writeFile ProjectBranchesCsv (branchesCsv m)) (\<lambda>_.
                log (Saved ProjectBranchesCsv)))))"

definition associateProjectsToBranches :: "unit prog" where
  "associateProjectsToBranches =
     (\<lambda>s. case associateBody s of
        (Inl (Throw e), s1) \<Rightarrow> (Inr (), s1\<lparr>console := console s1 @ [ErrorLogged e]\<rparr>)
      | (Inl Return, s1) \<Rightarrow> (Inr (), s1)
      | (Inr u, s1) \<Rightarrow> (Inr (), s1))"

subsection \<open>Fetching the branches\<close>

text \<open>
  The \<^verbatim>\<open>while (moreBranches)\<close> loop: here the request is inside a \<^verbatim>\<open>try\<close> whose
  \<^verbatim>\<open>catch\<close> logs and ends the loop.
\<close>

partial_function (option) fetchBranchPages ::
  "(request \<Rightarrow> branch list reply) \<Rightarrow> jsstring \<Rightarrow> nat \<Rightarrow> branch list \<Rightarrow> state \<Rightarrow>
   ((exit + branch list) \<times> state) option" where
  "fetchBranchPages server token offset allBranches s =
     (case send server \<lparr>verb = GET, url = BranchesUrl offset, bearer = Some token,
                         data = NoData\<rparr> s of
        (Inl e, s1) \<Rightarrow> Some (Inl e, s1)
      | (Inr (Rejected e), s1) \<Rightarrow>
          Some (Inr allBranches, s1\<lparr>console := console s1 @ [FetchError (RequestRejected e)]\<rparr>)
      | (Inr (Resolved status branchesData), s1) \<Rightarrow>
          if status = 200 then
            (if length branchesData = 500
             then fetchBranchPages server token (offset + 500) (allBranches @ branchesData) s1
             else Some (Inr (allBranches @ branchesData), s1))
          else Some (Inr allBranches, s1\<lparr>console := console s1 @ [HttpError status]\<rparr>))"

declare fetchBranchPages.simps [code]

text \<open>
  \<^verbatim>\<open>const u = config.t?.replace('{customer}', config.customer)\<close> and the test \<^verbatim>\<open>!u\<close>.
\<close>

definition missingUrl :: "world \<Rightarrow> config \<Rightarrow> jsstring option \<Rightarrow> bool" where
  "missingUrl w config t =
     (case t of None \<Rightarrow> True | Some u \<Rightarrow> substitute w u (customer config) = [])"

definition saveBranches :: "branch list \<Rightarrow> unit prog" where
  "saveBranches allBranches =
     andThen (writeFile BranchesListJson (BranchesDoc allBranches)) (\<lambda>_.
     andThen (log (Saved BranchesListJson)) (\<lambda>_.
     associateProjectsToBranches))"

definition beforeBranches :: "world \<Rightarrow> jsstring prog" where
  "beforeBranches w =
     andThen (confirmDelete (answer w) BranchesListJson) (\<lambda>_.
     andThen readConfig (\<lambda>config.
       if missingUrl w config (authUrlTemplate config) \<or>
          missingUrl w config (authUrlV2Template config) \<or>
          missingUrl w config (branchesUrlTemplate config)
       then throw MissingUrlTemplate
       else authenticate (authServer w) config))"

definition fetchBranchesWithAuth :: "world \<Rightarrow> state \<Rightarrow> (outcome \<times> state) option" where
  "fetchBranchesWithAuth w s =
     map_option finish
       (case beforeBranches w s of
          (Inl e, s1) \<Rightarrow> Some (Inl e, s1)
        | (Inr token, s1) \<Rightarrow>
            map_option (\<lambda>r. continue r saveBranches)
              (fetchBranchPages (branchServer w) token 0 [] s1))"

section \<open>The user-information script\<close>

definition projectRef :: "remote_project \<Rightarrow> project_ref" where
  "projectRef project = \<lparr>ref_id = rp_id project, ref_name = rp_name project\<rparr>"

definition formatUser :: "user \<Rightarrow> user" where
  "formatUser u =
     \<lparr>user_id = user_id u, user_name = user_name u, user_email = user_email u,
      groupIds = groupIds u\<rparr>"

subsection \<open>Grouping the users\<close>

text \<open>
  \<^verbatim>\<open>allGroups\<close> is an object literal indexed by group id. For a name inherited from
  \<^verbatim>\<open>Object.prototype\<close> the test \<^verbatim>\<open>!allGroups[groupId]\<close> is false and
  \<^verbatim>\<open>allGroups[groupId].push\<close> is not a function.
\<close>

definition objectPrototypeNames :: "jsstring list" where
  "objectPrototypeNames = protoName # inheritedMethods"

definition addToGroup :: "(jsstring \<times> user list) list \<Rightarrow> user \<Rightarrow> jsstring \<Rightarrow>
    error + (jsstring \<times> user list) list" where
  "addToGroup allGroups u groupId =
     (case map_of allGroups groupId of
        Some members \<Rightarrow> Inr (assign allGroups groupId (members @ [u]))
      | None \<Rightarrow>
          if groupId \<in> set objectPrototypeNames then Inl TypeError
          else Inr (assign allGroups groupId [u]))"

fun addUserGroups :: "(jsstring \<times> user list) list \<Rightarrow> user \<Rightarrow> jsstring list \<Rightarrow>
    error + (jsstring \<times> user list) list" where
  "addUserGroups allGroups u [] = Inr allGroups"
| "addUserGroups allGroups u (groupId # rest) =
     (case addToGroup allGroups u groupId of
        Inl e \<Rightarrow> Inl e
      | Inr allGroups' \<Rightarrow> addUserGroups allGroups' u rest)"

fun groupUsers :: "(jsstring \<times> user list) list \<Rightarrow> user list \<Rightarrow>
    error + (jsstring \<times> user list) list" where
  "groupUsers allGroups [] = Inr allGroups"
| "groupUsers allGroups (u # rest) =
     (case addUserGroups allGroups u (groupIds u) of
        Inl e \<Rightarrow> Inl e
      | Inr allGroups' \<Rightarrow> groupUsers allGroups' rest)"

subsection \<open>The details of one project\<close>

text \<open>
  \<^verbatim>\<open>allGroups[group.id] || []\<close> is an array of users, or an inherited value that is no
  array.
\<close>

datatype members = Members "user list" | NotAnArray

record groupInfo =
  groupName :: jsstring
  members :: members

record groupMembers =
  gm_own :: "(jsstring \<times> groupInfo) list"
  gm_proto :: "groupInfo option"

record detail =
  projectId :: jsstring
  projectName :: jsstring
  groups :: groupMembers
  individualUsers :: "(jsstring \<times> jsstring) list"

definition membersOf :: "(jsstring \<times> user list) list \<Rightarrow> jsstring \<Rightarrow> members" where
  "membersOf allGroups gid =
     (case map_of allGroups gid of
        Some us \<Rightarrow> Members us
      | None \<Rightarrow> if gid \<in> set objectPrototypeNames then NotAnArray else Members [])"

definition setGroup :: "groupMembers \<Rightarrow> jsstring \<Rightarrow> groupInfo \<Rightarrow> groupMembers" where
  "setGroup gm k g =
     (if k = protoName then gm\<lparr>gm_proto := Some g\<rparr> else gm\<lparr>gm_own := assign (gm_own gm) k g\<rparr>)"

fun includedGroups :: "resource list \<Rightarrow> (jsstring \<times> jsstring) list" where
  "includedGroups [] = []"
| "includedGroups (GroupsResource gid gname # rest) = (gid, gname) # includedGroups rest"
| "includedGroups (UsersResource n e gs # rest) = includedGroups rest"
| "includedGroups (OtherResource # rest) = includedGroups rest"

text \<open>
  The users of \<^verbatim>\<open>included\<close> with \<^verbatim>\<open>groupId: user.relationships.groups.data[0]?.id || 'N/A'\<close>.
\<close>

definition firstGroupId :: "jsstring list \<Rightarrow> jsstring" where
  "firstGroupId gs = (case gs of [] \<Rightarrow> lit ''N/A'' | g # rest \<Rightarrow> if g = [] then lit ''N/A'' else g)"

fun includedUsers :: "resource list \<Rightarrow> (jsstring \<times> jsstring \<times> jsstring) list" where
  "includedUsers [] = []"
| "includedUsers (UsersResource n e gs # rest) = (n, e, firstGroupId gs) # includedUsers rest"
| "includedUsers (GroupsResource gid gname # rest) = includedUsers rest"
| "includedUsers (OtherResource # rest) = includedUsers rest"

definition groupMembersOf :: "(jsstring \<times> user list) list \<Rightarrow> (jsstring \<times> jsstring) list \<Rightarrow>
    groupMembers" where
  "groupMembersOf allGroups gs =
     foldl (\<lambda>gm (gid, gname). setGroup gm gid \<lparr>groupName = gname, members = membersOf allGroups gid\<rparr>)
       \<lparr>gm_own = [], gm_proto = None\<rparr> gs"

definition projectDetail :: "(jsstring \<times> user list) list \<Rightarrow> project_ref \<Rightarrow> resource list \<Rightarrow> detail" where
  "projectDetail allGroups project included =
     \<lparr>projectId = ref_id project,
      projectName = ref_name project,
      groups = groupMembersOf allGroups (includedGroups included),
      individualUsers =
        map (\<lambda>(n, e, g). (n, e)) (filter (\<lambda>(n, e, g). g = lit ''N/A'') (includedUsers included))\<rparr>"

text \<open>
  The \<^verbatim>\<open>for (const project of allProjects)\<close> loop: the request is under the outer
  \<^verbatim>\<open>try\<close> only, so a rejection leaves the loop and the function body.
\<close>

fun fetchDetails :: "(request \<Rightarrow> resource list reply) \<Rightarrow> jsstring \<Rightarrow> (jsstring \<times> user list) list \<Rightarrow>
    project_ref list \<Rightarrow> detail list \<Rightarrow> detail list prog" where
  "fetchDetails server token allGroups [] projectDetails s = (Inr projectDetails, s)"
| "fetchDetails server token allGroups (project # rest) projectDetails s =
     (case request server \<lparr>verb = GET, url = RoleAssignmentsUrl (ref_id project),
                            bearer = Some token, data = NoData\<rparr> s of
        (Inl e, s1) \<Rightarrow> (Inl e, s1)
      | (Inr (status, included), s1) \<Rightarrow>
          if status = 200 then
            fetchDetails server token allGroups rest
              (projectDetails @ [projectDetail allGroups project included]) s1
          else
            fetchDetails server token allGroups rest projectDetails
              (s1\<lparr>console := console s1 @ [HttpError status]\<rparr>))"

subsection \<open>The CSV of the details\<close>

text \<open>
  \<^verbatim>\<open>for (const groupId in project.groups)\<close> visits the own keys and then the enumerable
  keys of the prototype that no own key hides (\<^verbatim>\<open>groupName\<close> and \<^verbatim>\<open>members\<close>, once a
  group with the id \<^verbatim>\<open>__proto__\<close> has replaced the prototype). For such a key
  \<^verbatim>\<open>project.groups[groupId].members\<close> is undefined, and \<^verbatim>\<open>.forEach\<close> a \<^verbatim>\<open>TypeError\<close>,
  as it is for members that are no array.
\<close>

datatype groupKey = OwnGroup groupInfo | InheritedKey

definition forInGroups :: "groupMembers \<Rightarrow> groupKey list" where
  "forInGroups gm =
     map (\<lambda>kv. OwnGroup (snd kv)) (ownProperties (gm_own gm)) @
     (case gm_proto gm of
        None \<Rightarrow> []
      | Some g \<Rightarrow>
          map (\<lambda>k. InheritedKey)
            (filter (\<lambda>k. map_of (gm_own gm) k = None) [lit ''groupName'', lit ''members'']))"

definition memberRow :: "detail \<Rightarrow> groupInfo \<Rightarrow> user \<Rightarrow> cell list" where
  "memberRow project g member =
     [Text (projectId project), Text (projectName project), Text (groupName g),
      Text (user_name member), Text (user_email member), Text []]"

definition individualRow :: "detail \<Rightarrow> jsstring \<times> jsstring \<Rightarrow> cell list" where
  "individualRow project u =
     [Text (projectId project), Text (projectName project), Text (lit ''N/A''), Text [], Text [],
      Text (fst u @ lit '', '' @ snd u)]"

fun groupRows :: "detail \<Rightarrow> groupKey list \<Rightarrow> error + cell list list" where
  "groupRows project [] = Inr []"
| "groupRows project (InheritedKey # rest) = Inl TypeError"
| "groupRows project (OwnGroup g # rest) =
     (case members g of
        NotAnArray \<Rightarrow> Inl TypeError
      | Members us \<Rightarrow>
          (case groupRows project rest of
             Inl e \<Rightarrow> Inl e
           | Inr rows \<Rightarrow> Inr (map (memberRow project g) us @ rows)))"

definition detailRows :: "detail \<Rightarrow> error + cell list list" where
  "detailRows project =
     (case groupRows project (forInGroups (groups project)) of
        Inl e \<Rightarrow> Inl e
      | Inr rows \<Rightarrow> Inr (rows @ map (individualRow project) (individualUsers project)))"

fun allDetailRows :: "detail list \<Rightarrow> error + cell list list" where
  "allDetailRows [] = Inr []"
| "allDetailRows (project # rest) =
     (case detailRows project of
        Inl e \<Rightarrow> Inl e
      | Inr rows \<Rightarrow> (case allDetailRows rest of Inl e \<Rightarrow> Inl e | Inr others \<Rightarrow> Inr (rows @ others)))"

definition detailsHeader :: "jsstring list" where
  "detailsHeader =
     [lit ''PROJECT ID'', lit ''PROJECT NAME'', lit ''GROUP NAME'', lit ''MEMBER NAME'',
      lit ''MEMBER EMAIL'', lit ''INDIVIDUAL USERS IN A PROJECT'']"

subsection \<open>The run\<close>

definition saveDetails :: "detail list \<Rightarrow> unit prog" where
  "saveDetails projectDetails =
     (case allDetailRows projectDetails of
        Inl e \<Rightarrow> throw e
      | Inr csvData \<Rightarrow>
          andThen (writeFile ProjectDetailsCsv (CsvDoc detailsHeader csvData)) (\<lambda>_.
          log (Saved ProjectDetailsCsv)))"

definition userDetails :: "world \<Rightarrow> jsstring \<Rightarrow> project_ref list \<Rightarrow> user list \<Rightarrow> unit prog" where
  "userDetails w token allProjects allUsers =
     (case groupUsers [] allUsers of
        Inl e \<Rightarrow> throw e
      | Inr allGroups \<Rightarrow>
          andThen (fetchDetails (roleServer w) token allGroups allProjects []) saveDetails)"

definition saveProjectRefs :: "project_ref list \<Rightarrow> project_ref list prog" where
  "saveProjectRefs allProjects =
     andThen (writeFile ProjectListJson (ProjectRefsDoc allProjects)) (\<lambda>_.
     andThen (log (Saved ProjectListJson)) (\<lambda>_.
     pure allProjects))"

definition beforeUserProjects :: "world \<Rightarrow> jsstring prog" where
  "beforeUserProjects w =
     andThen (deleteFileIfExists (answer w) ProjectListJson) (\<lambda>kept.
       if \<not> kept then (\<lambda>s. (Inl Return, s))
       else
         andThen (deleteFileIfExists (answer w) ProjectDetailsCsv) (\<lambda>kept.
           if \<not> kept then (\<lambda>s. (Inl Return, s))
           else
             andThen readConfig (\<lambda>config.
             andThen (replaceCustomer (authUrlTemplate config)) (\<lambda>_.
             andThen (replaceCustomer (authUrlV2Template config)) (\<lambda>_.
             andThen (replaceCustomer (projectsUrlTemplate config)) (\<lambda>_.
             authenticate (authServer w) config))))))"

definition getProjectUserInformation :: "world \<Rightarrow> state \<Rightarrow> (outcome \<times> state) option" where
  "getProjectUserInformation w s =
     map_option finish
       (case beforeUserProjects w s of
          (Inl e, s1) \<Rightarrow> Some (Inl e, s1)
        | (Inr token, s1) \<Rightarrow>
            Option.bind (paginate (projectServer w) ProjectsUrl projectRef token 5 0 [] s1) (\<lambda>r1.
              case continue r1 saveProjectRefs of
                (Inl e, s2) \<Rightarrow> Some (Inl e, s2)
              | (Inr allProjects, s2) \<Rightarrow>
                  map_option (\<lambda>r2. continue r2 (userDetails w token allProjects))
                    (paginate (userServer w) UsersUrl formatUser token 50 0 [] s2)))"

section \<open>Auxiliary definitions\<close>

text \<open>The own properties of \<^verbatim>\<open>projectMap\<close> after the \<^verbatim>\<open>reduce\<close> over the project list.\<close>

definition ownAfter :: "(jsstring \<times> entry) list \<Rightarrow> stored_project list \<Rightarrow> (jsstring \<times> entry) list" where
  "ownAfter kvs ps =
     foldl (\<lambda>kvs p. assign kvs (sp_id p) \<lparr>e_name = sp_name p, e_branches = []\<rparr>) kvs ps"



section \<open>The token as the specification words it\<close>

text \<open>
  The specification's wording of the cookie token, to compare \<open>cookieToken\<close> with: the
  substring of the cookie between \<^verbatim>\<open>access_token=\<close> and the next \<^verbatim>\<open>;\<close>.
\<close>

definition cookieValue_spec :: "jsstring \<Rightarrow> jsstring" where
  "cookieValue_spec cookie =
     takeWhile (\<lambda>c. c \<noteq> semicolon) (drop (length (lit ''access_token='')) cookie)"

text \<open>
  The specification's wording of a group's member list, to compare \<open>membersIn\<close> with: the
  users whose group-id list contains the group's id, in user-fetch order.
\<close>

definition usersOfGroup_spec :: "user list \<Rightarrow> jsstring \<Rightarrow> user list" where
  "usersOfGroup_spec users k = filter (\<lambda>u. k \<in> set (groupIds u)) users"

section \<open>Example inputs\<close>

definition exampleConfig :: "jsstring option \<Rightarrow> jsstring option \<Rightarrow> config" where
  "exampleConfig pw tok =
     \<lparr>customer = lit ''acme'', email = lit ''a@b.c'', password = pw, accesstoken = tok,
      authUrlTemplate = Some (lit ''https://{customer}/auth''),
      authUrlV2Template = Some (lit ''https://{customer}/auth2''),
      projectsUrlTemplate = Some (lit ''https://{customer}/projects''),
      setPropertyUrlTemplate = Some (lit ''https://{customer}/set''),
      branchesUrlTemplate = Some (lit ''https://{customer}/branches?offset={offset}'')\<rparr>"

definition emptyState :: state where
  "emptyState = \<lparr>files = (\<lambda>p. Absent), requests = [], console = []\<rparr>"

definition tokenServer :: "request \<Rightarrow> auth_response reply" where
  "tokenServer r =
     Resolved 200 \<lparr>set_cookie = Some [lit ''access_token=abc; Path=/''], body = None\<rparr>"

text \<open>
  A project listing that serves pages of 5, 5, 5 and 3 projects, one whose first page has
  7 projects, and one with a single page of 2.
\<close>

definition exampleProject :: "nat \<Rightarrow> remote_project" where
  "exampleProject n =
     \<lparr>rp_id = decimal n, rp_type = lit ''project'', rp_properties = [],
      rp_name = lit ''P'' @ decimal n, rp_branches = lit ''/branches''\<rparr>"

definition examplePage :: "nat \<Rightarrow> nat \<Rightarrow> remote_project list" where
  "examplePage offset n = map (\<lambda>i. exampleProject (offset + i)) [0..<n]"

definition fourPages :: "request \<Rightarrow> remote_project list reply" where
  "fourPages r =
     (case url r of
        ProjectsUrl limit offset \<Rightarrow> Resolved 200 (examplePage offset (if offset < 15 then 5 else 3))
      | _ \<Rightarrow> Rejected None)"

definition servedPage :: "nat \<Rightarrow> remote_project list" where
  "servedPage i = examplePage (i * 5) (if i < 3 then 5 else 3)"

definition sevenFirst :: "request \<Rightarrow> remote_project list reply" where
  "sevenFirst r =
     (case url r of
        ProjectsUrl limit offset \<Rightarrow> Resolved 200 (examplePage offset (if offset = 0 then 7 else 3))
      | _ \<Rightarrow> Rejected None)"

definition onePage :: "request \<Rightarrow> remote_project list reply" where
  "onePage r = Resolved 200 (examplePage 0 2)"


text \<open>
  A run's surroundings: \<^verbatim>\<open>config.json\<close> with a password, the output files of \<open>existing\<close>
  present, an operator who answers \<^verbatim>\<open>yes\<close> for \<^verbatim>\<open>projectList.json\<close> and \<^verbatim>\<open>no\<close>
  otherwise, and servers that answer with status 200.
\<close>

definition exampleFiles :: "path list \<Rightarrow> path \<Rightarrow> node" where
  "exampleFiles existing p =
     (if p = ConfigJson then Present (ConfigDoc (exampleConfig (Some (lit ''secret'')) None))
      else if p \<in> set existing then Present OtherContent
      else Absent)"

definition startState :: "path list \<Rightarrow> state" where
  "startState existing = \<lparr>files = exampleFiles existing, requests = [], console = []\<rparr>"

definition exampleUser :: user where
  "exampleUser =
     \<lparr>user_id = lit ''u1'', user_name = lit ''Ann'', user_email = lit ''ann@b.c'',
      groupIds = [lit ''g1'']\<rparr>"

definition exampleWorld ::
    "(request \<Rightarrow> remote_project list reply) \<Rightarrow> (request \<Rightarrow> resource list reply) \<Rightarrow> world" where
  "exampleWorld projects roles =
     \<lparr>answer = (\<lambda>p. if p = ProjectListJson then lit ''yes'' else lit ''no''),
      substitute = (\<lambda>t c. t),
      authServer = tokenServer,
      projectServer = projects,
      branchServer = (\<lambda>r. Resolved 200 []),
      userServer = (\<lambda>r. Resolved 200 [exampleUser]),
      roleServer = roles,
      propertyServer = (\<lambda>r. Resolved 200 ())\<rparr>"

definition authRequest :: request where
  "authRequest =
     \<lparr>verb = POST, url = AuthUrl, bearer = None,
      data = FormData [(lit ''email'', lit ''a@b.c''), (lit ''password'', lit ''secret'')]\<rparr>"

text \<open>A project listing whose second request fails in transport.\<close>

definition failingSecond :: "request \<Rightarrow> remote_project list reply" where
  "failingSecond r =
     (case url r of
        ProjectsUrl limit offset \<Rightarrow>
          if offset = 0 then Resolved 200 (examplePage 0 5) else Rejected None
      | _ \<Rightarrow> Rejected None)"

text \<open>
  A role-assignments endpoint that rejects the request for project \<^verbatim>\<open>0\<close> with status 500
  and answers the others.
\<close>

definition rejectFirst :: "request \<Rightarrow> resource list reply" where
  "rejectFirst r =
     (if url r = RoleAssignmentsUrl (decimal 0) then Rejected (Some 500) else Resolved 200 [])"

definition rolesRequest :: "jsstring \<Rightarrow> jsstring \<Rightarrow> request" where
  "rolesRequest token pid =
     \<lparr>verb = GET, url = RoleAssignmentsUrl pid, bearer = Some token, data = NoData\<rparr>"

definition twoRefs :: "project_ref list" where
  "twoRefs = map projectRef (examplePage 0 2)"

text \<open>
  The projects and branches of the specification's correlation example, and a second
  project with the id of the first.
\<close>

definition alpha :: stored_project where
  "alpha = \<lparr>sp_id = lit ''p1'', sp_name = lit ''Alpha'', sp_properties = None\<rparr>"

definition beta :: stored_project where
  "beta = \<lparr>sp_id = lit ''p1'', sp_name = lit ''Beta'', sp_properties = None\<rparr>"

definition mainBranch :: branch where
  "mainBranch = \<lparr>b_name = lit ''main'', b_project = lit ''p1''\<rparr>"

definition devBranch :: branch where
  "devBranch = \<lparr>b_name = lit ''dev'', b_project = lit ''p9''\<rparr>"

text \<open>Two correlated projects, with two branches and with none.\<close>

definition twoEntries :: "entry list" where
  "twoEntries =
     [\<lparr>e_name = lit ''Alpha'', e_branches = [lit ''main'', lit ''dev'']\<rparr>,
      \<lparr>e_name = lit ''Beta'', e_branches = []\<rparr>]"

text \<open>A user whose group list names the group \<^verbatim>\<open>g1\<close> twice.\<close>

definition listedTwice :: user where
  "listedTwice =
     \<lparr>user_id = lit ''u2'', user_name = lit ''Bob'', user_email = lit ''bob@b.c'',
      groupIds = [lit ''g1'', lit ''g1'']\<rparr>"

definition exampleProjectRef :: project_ref where
  "exampleProjectRef = \<lparr>ref_id = lit ''p1'', ref_name = lit ''Alpha''\<rparr>"


definition devsGroup :: resource where
  "devsGroup = GroupsResource (lit ''g1'') (lit ''Devs'')"

text \<open>
  A branch listing whose first page is full and whose second request fails in transport,
  and an operator who answers \<^verbatim>\<open>no\<close> to every prompt.
\<close>

definition fullBranchPage :: "branch list" where
  "fullBranchPage = replicate 500 mainBranch"

definition failingBranches :: "request \<Rightarrow> branch list reply" where
  "failingBranches r = (if url r = BranchesUrl 0 then Resolved 200 fullBranchPage else Rejected None)"

definition branchRequest :: "jsstring \<Rightarrow> nat \<Rightarrow> request" where
  "branchRequest token offset =
     \<lparr>verb = GET, url = BranchesUrl offset, bearer = Some token, data = NoData\<rparr>"

definition refusingWorld :: world where
  "refusingWorld = (exampleWorld fourPages rejectFirst)\<lparr>answer := (\<lambda>p. lit ''no'')\<rparr>"

section \<open>The exported details, for comparison\<close>




section \<open>Credential resolution: properties\<close>

lemma trim_Nil: "trim [] = []" by (simp add: trim_def)

lemma provided_iff: "provided v \<longleftrightarrow> (\<exists>s. v = Some s \<and> trim s \<noteq> [])"
  by (auto simp: provided_def trim_Nil split: option.splits)

lemma requests_request:
  "requests (snd (request server r s)) = requests s @ [r]"
  by (simp add: request_def andThen_def send_def pure_def throw_def split: reply.splits)

lemma requests_authenticate:
  "authConfigOf c = Inr r \<Longrightarrow> requests (snd (authenticate server c s)) = requests s @ [r]"
  by (auto simp add: authenticate_def request_def andThen_def send_def pure_def throw_def split: reply.splits sum.splits)

text \<open>
  Claim C2. Credential resolution has three outcomes. When the password is not empty after
  trimming, the only request is one POST to the password-flow URL with the email and the
  password (so the token-flow URL is not contacted). Otherwise, when the access token is
  not empty after trimming, the only request is one POST to the token-flow URL with the
  email and the access token. Otherwise it fails with the missing-credential error and
  the state, with its list of requests, is unchanged.
\<close>

theorem credential_resolution:
  "((\<exists>pw. password c = Some pw \<and> trim pw \<noteq> []) \<longrightarrow>
      requests (snd (authenticate server c s)) =
        requests s @ [\<lparr>verb = POST, url = AuthUrl, bearer = None,
           data = FormData [(lit ''email'', email c), (lit ''password'', the (password c))]\<rparr>]) \<and>
   (\<not> (\<exists>pw. password c = Some pw \<and> trim pw \<noteq> []) \<and>
    (\<exists>tok. accesstoken c = Some tok \<and> trim tok \<noteq> []) \<longrightarrow>
      requests (snd (authenticate server c s)) =
        requests s @ [\<lparr>verb = POST, url = AuthUrlV2, bearer = None,
           data = FormData [(lit ''email'', email c), (lit ''accesstoken'', the (accesstoken c))]\<rparr>]) \<and>
   (\<not> (\<exists>pw. password c = Some pw \<and> trim pw \<noteq> []) \<and>
    \<not> (\<exists>tok. accesstoken c = Some tok \<and> trim tok \<noteq> []) \<longrightarrow>
      authenticate server c s = (Inl (Throw NoCredential), s))"
proof (intro conjI impI)
  assume "\<exists>pw. password c = Some pw \<and> trim pw \<noteq> []"
  then obtain pw where pw: "password c = Some pw" "trim pw \<noteq> []" by blast
  then have "provided (password c)" by (simp add: provided_iff)
  with pw have "authConfigOf c = Inr \<lparr>verb = POST, url = AuthUrl, bearer = None,
           data = FormData [(lit ''email'', email c), (lit ''password'', pw)]\<rparr>"
    by (simp add: authConfigOf_def)
  from requests_authenticate [OF this] pw
  show "requests (snd (authenticate server c s)) =
        requests s @ [\<lparr>verb = POST, url = AuthUrl, bearer = None,
           data = FormData [(lit ''email'', email c), (lit ''password'', the (password c))]\<rparr>]"
    by simp
next
  assume a: "\<not> (\<exists>pw. password c = Some pw \<and> trim pw \<noteq> []) \<and>
    (\<exists>tok. accesstoken c = Some tok \<and> trim tok \<noteq> [])"
  then obtain tok where tok: "accesstoken c = Some tok" "trim tok \<noteq> []" by blast
  from a have np: "\<not> provided (password c)" by (simp add: provided_iff)
  from tok have "provided (accesstoken c)" by (simp add: provided_iff)
  with np tok have "authConfigOf c = Inr \<lparr>verb = POST, url = AuthUrlV2, bearer = None,
           data = FormData [(lit ''email'', email c), (lit ''accesstoken'', tok)]\<rparr>"
    by (simp add: authConfigOf_def)
  from requests_authenticate [OF this] tok
  show "requests (snd (authenticate server c s)) =
        requests s @ [\<lparr>verb = POST, url = AuthUrlV2, bearer = None,
           data = FormData [(lit ''email'', email c), (lit ''accesstoken'', the (accesstoken c))]\<rparr>]"
    by simp
next
  assume a: "\<not> (\<exists>pw. password c = Some pw \<and> trim pw \<noteq> []) \<and>
    \<not> (\<exists>tok. accesstoken c = Some tok \<and> trim tok \<noteq> [])"
  then have "\<not> provided (password c)" "\<not> provided (accesstoken c)"
    by (simp_all add: provided_iff)
  then show "authenticate server c s = (Inl (Throw NoCredential), s)"
    by (simp add: authenticate_def authConfigOf_def throw_def)
qed

theorem credential_resolution_witness:
  "requests (snd (authenticate tokenServer (exampleConfig (Some (lit ''secret'')) (Some (lit ''key''))) emptyState)) =
     [\<lparr>verb = POST, url = AuthUrl, bearer = None,
       data = FormData [(lit ''email'', lit ''a@b.c''), (lit ''password'', lit ''secret'')]\<rparr>] \<and>
   requests (snd (authenticate tokenServer (exampleConfig (Some (lit ''  '')) (Some (lit ''key''))) emptyState)) =
     [\<lparr>verb = POST, url = AuthUrlV2, bearer = None,
       data = FormData [(lit ''email'', lit ''a@b.c''), (lit ''accesstoken'', lit ''key'')]\<rparr>] \<and>
   authenticate tokenServer (exampleConfig (Some (lit ''  '')) None) emptyState =
     (Inl (Throw NoCredential), emptyState)"
  using credential_resolution [of "exampleConfig (Some (lit ''secret'')) (Some (lit ''key''))" tokenServer emptyState]
    credential_resolution [of "exampleConfig (Some (lit ''  '')) (Some (lit ''key''))" tokenServer emptyState]
    credential_resolution [of "exampleConfig (Some (lit ''  '')) None" tokenServer emptyState]
  by (simp add: exampleConfig_def emptyState_def trim_def isWhiteSpace_def lit_def)

section \<open>Token extraction: properties\<close>

text \<open>
  Claim C5. The token taken from the cookie is not always the text between
  \<^verbatim>\<open>access_token=\<close> and the next \<^verbatim>\<open>;\<close>: for the cookie
  \<^verbatim>\<open>access_token=abc==; Path=/\<close> the script extracts \<^verbatim>\<open>abc\<close>, and that text is
  \<^verbatim>\<open>abc==\<close>.
\<close>

theorem token_truncated_at_equals_sign:
  "extractToken \<lparr>set_cookie = Some [lit ''access_token=abc==; Path=/''], body = None\<rparr> = Inr (lit ''abc'') \<and>
   cookieValue_spec (lit ''access_token=abc==; Path=/'') = lit ''abc==''"
  by (simp add: extractToken_def cookieToken_def startsWith_def lit_def split_def semicolon_def
      equalsSign_def element_def truthy_def bodyJwt_def cookieValue_spec_def)

section \<open>Pagination: properties\<close>

lemma paginate_full_page:
  assumes "server (pageRequest pageUrl token limit offset) = Resolved 200 items"
    and "length items = limit"
  shows "paginate server pageUrl format token limit offset acc s =
         paginate server pageUrl format token limit (offset + limit) (acc @ map format items)
           (s\<lparr>requests := requests s @ [pageRequest pageUrl token limit offset]\<rparr>)"
  using assms by (subst paginate.simps) (simp add: send_def pageRequest_def)

lemma paginate_last_page:
  assumes "server (pageRequest pageUrl token limit offset) = Resolved 200 items"
    and "length items \<noteq> limit"
  shows "paginate server pageUrl format token limit offset acc s =
         Some (Inr (acc @ map format items),
           s\<lparr>requests := requests s @ [pageRequest pageUrl token limit offset]\<rparr>)"
  using assms by (subst paginate.simps) (simp add: send_def pageRequest_def)

lemma paginate_status:
  assumes "server (pageRequest pageUrl token limit offset) = Resolved status items"
    and "status \<noteq> 200"
  shows "paginate server pageUrl format token limit offset acc s =
         Some (Inr acc,
           s\<lparr>requests := requests s @ [pageRequest pageUrl token limit offset],
              console := console s @ [HttpError status]\<rparr>)"
  using assms by (subst paginate.simps) (simp add: send_def pageRequest_def)

lemma paginate_rejected:
  assumes "server (pageRequest pageUrl token limit offset) = Rejected e"
  shows "paginate server pageUrl format token limit offset acc s =
         Some (Inl (Throw (RequestRejected e)),
           s\<lparr>requests := requests s @ [pageRequest pageUrl token limit offset]\<rparr>)"
  using assms by (subst paginate.simps) (simp add: send_def pageRequest_def)

text \<open>
  From page \<open>j\<close> on: as long as the pages are served with status 200 and are full, the loop
  goes on; it returns at the first page \<open>k\<close> that is not full.
\<close>

lemma paginate_from:
  assumes served: "\<And>i. j \<le> i \<Longrightarrow> i \<le> k \<Longrightarrow>
        server (pageRequest pageUrl token limit (i * limit)) = Resolved 200 (pages i)"
    and full: "\<And>i. j \<le> i \<Longrightarrow> i < k \<Longrightarrow> length (pages i) = limit"
    and short: "length (pages k) \<noteq> limit"
    and le: "j \<le> k"
  shows "paginate server pageUrl format token limit (j * limit) acc s =
         Some (Inr (acc @ map format (concat (map pages [j..<Suc k]))),
           s\<lparr>requests := requests s @
              map (\<lambda>i. pageRequest pageUrl token limit (i * limit)) [j..<Suc k]\<rparr>)"
  using assms
proof (induction "k - j" arbitrary: j acc s)
  case 0
  then have jk: "j = k" by simp
  from 0 jk have "server (pageRequest pageUrl token limit (k * limit)) = Resolved 200 (pages k)"
    by simp
  from paginate_last_page [where server = server and items = "pages k", OF this short] jk
  show ?case by simp
next
  case (Suc n)
  then have lt: "j < k" by simp
  have s1: "server (pageRequest pageUrl token limit (j * limit)) = Resolved 200 (pages j)"
    using Suc.prems(1) [of j] lt by simp
  have l1: "length (pages j) = limit" using Suc.prems(2) [of j] lt by simp
  have step: "paginate server pageUrl format token limit (j * limit) acc s =
      paginate server pageUrl format token limit (Suc j * limit) (acc @ map format (pages j))
        (s\<lparr>requests := requests s @ [pageRequest pageUrl token limit (j * limit)]\<rparr>)"
    using paginate_full_page [where server = server and items = "pages j", OF s1 l1]
    by (simp add: add.commute)
  have n: "n = k - Suc j" using Suc.hyps(2) by simp
  have ih: "paginate server pageUrl format token limit (Suc j * limit) (acc @ map format (pages j))
        (s\<lparr>requests := requests s @ [pageRequest pageUrl token limit (j * limit)]\<rparr>) =
      Some (Inr ((acc @ map format (pages j)) @ map format (concat (map pages [Suc j..<Suc k]))),
        (s\<lparr>requests := requests s @ [pageRequest pageUrl token limit (j * limit)]\<rparr>)
          \<lparr>requests := requests (s\<lparr>requests := requests s @ [pageRequest pageUrl token limit (j * limit)]\<rparr>) @
             map (\<lambda>i. pageRequest pageUrl token limit (i * limit)) [Suc j..<Suc k]\<rparr>)"
  proof (rule Suc.hyps(1) [OF n])
    show "\<And>i. Suc j \<le> i \<Longrightarrow> i \<le> k \<Longrightarrow>
        server (pageRequest pageUrl token limit (i * limit)) = Resolved 200 (pages i)"
      using Suc.prems(1) by simp
    show "\<And>i. Suc j \<le> i \<Longrightarrow> i < k \<Longrightarrow> length (pages i) = limit"
      using Suc.prems(2) by simp
    show "length (pages k) \<noteq> limit" by (rule short)
    show "Suc j \<le> k" using lt by simp
  qed
  have split: "[j..<Suc k] = j # [Suc j..<Suc k]" using lt by (simp add: upt_conv_Cons)
  show ?case unfolding step ih split by simp
qed


lemma length_examplePage: "length (examplePage offset n) = n"
  by (simp add: examplePage_def)

lemma upt_4: "[0..<4] = [0, 1, 2, 3::nat]"
  by code_simp

text \<open>
  Claim C1. Let the server answer the requests at offsets \<open>0, limit, ..., k * limit\<close>
  with pages of at most \<open>limit\<close> items, as \<^verbatim>\<open>page[limit]\<close> asks, and let page \<open>k\<close> be the
  first page with strictly fewer than \<open>limit\<close> items. Then the loop returns; it has issued
  exactly the GET requests at the offsets \<open>0, limit, ..., k * limit\<close>, in this order, which
  is strictly increasing, and its result is the items of the pages \<open>0..k\<close> in arrival
  order.
\<close>

theorem pagination_until_short_page:
  assumes served: "\<And>i. i \<le> k \<Longrightarrow>
        server (pageRequest pageUrl token limit (i * limit)) = Resolved 200 (pages i)"
    and honoured: "\<And>i. i \<le> k \<Longrightarrow> length (pages i) \<le> limit"
    and first: "\<And>i. i < k \<Longrightarrow> \<not> length (pages i) < limit"
    and short: "length (pages k) < limit"
  shows "paginate server pageUrl format token limit 0 [] s =
           Some (Inr (map format (concat (map pages [0..<Suc k]))),
             s\<lparr>requests := requests s @
                map (\<lambda>i. pageRequest pageUrl token limit (i * limit)) [0..<Suc k]\<rparr>) \<and>
         sorted_wrt (<) (map (\<lambda>i. i * limit) [0..<Suc k])"
proof
  have full: "\<And>i. i < k \<Longrightarrow> length (pages i) = limit"
  proof -
    fix i assume i: "i < k"
    then have "length (pages i) \<le> limit" by (intro honoured) simp
    with first [OF i] show "length (pages i) = limit" by simp
  qed
  have "paginate server pageUrl format token limit (0 * limit) [] s =
         Some (Inr ([] @ map format (concat (map pages [0..<Suc k]))),
           s\<lparr>requests := requests s @
              map (\<lambda>i. pageRequest pageUrl token limit (i * limit)) [0..<Suc k]\<rparr>)"
  proof (rule paginate_from)
    show "\<And>i. 0 \<le> i \<Longrightarrow> i \<le> k \<Longrightarrow>
        server (pageRequest pageUrl token limit (i * limit)) = Resolved 200 (pages i)"
      by (rule served)
    show "\<And>i. 0 \<le> i \<Longrightarrow> i < k \<Longrightarrow> length (pages i) = limit" by (rule full)
    show "length (pages k) \<noteq> limit" using short by simp
    show "0 \<le> k" by simp
  qed
  then show "paginate server pageUrl format token limit 0 [] s =
           Some (Inr (map format (concat (map pages [0..<Suc k]))),
             s\<lparr>requests := requests s @
                map (\<lambda>i. pageRequest pageUrl token limit (i * limit)) [0..<Suc k]\<rparr>)"
    by simp
  from short have "0 < limit" by simp
  then show "sorted_wrt (<) (map (\<lambda>i. i * limit) [0..<Suc k])"
    by (auto simp: sorted_wrt_map sorted_wrt_iff_nth_less simp del: upt_Suc)
qed

text \<open>
  Pages of 5, 5, 5 and 3 items with \<open>limit = 5\<close>: 18 items and four requests, at the
  offsets 0, 5, 10 and 15. A first page of 2 items: one request.
\<close>

theorem pagination_until_short_page_witness:
  "paginate fourPages ProjectsUrl projectRef (lit ''t'') 5 0 [] emptyState =
     Some (Inr (map projectRef (concat (map servedPage [0, 1, 2, 3]))),
       emptyState\<lparr>requests := map (pageRequest ProjectsUrl (lit ''t'') 5) [0, 5, 10, 15]\<rparr>) \<and>
   length (concat (map servedPage [0, 1, 2, 3])) = 18 \<and>
   sorted_wrt (<) [0, 5, 10, 15::nat] \<and>
   paginate onePage ProjectsUrl projectRef (lit ''t'') 5 0 [] emptyState =
     Some (Inr (map projectRef (examplePage 0 2)),
       emptyState\<lparr>requests := [pageRequest ProjectsUrl (lit ''t'') 5 0]\<rparr>)"
proof -
  have a: "\<And>i. i \<le> 3 \<Longrightarrow>
      fourPages (pageRequest ProjectsUrl (lit ''t'') 5 (i * 5)) = Resolved 200 (servedPage i)"
    by (auto simp: fourPages_def pageRequest_def servedPage_def)
  have h: "\<And>i. i \<le> 3 \<Longrightarrow> length (servedPage i) \<le> 5"
    by (simp add: servedPage_def length_examplePage)
  have b: "\<And>i. i < 3 \<Longrightarrow> \<not> length (servedPage i) < 5"
    by (simp add: servedPage_def length_examplePage)
  have c: "length (servedPage 3) < 5"
    by (simp add: servedPage_def length_examplePage)
  have d: "\<And>i. i \<le> 0 \<Longrightarrow>
      onePage (pageRequest ProjectsUrl (lit ''t'') 5 (i * 5)) = Resolved 200 (examplePage 0 2)"
    by (simp add: onePage_def)
  have h0: "\<And>i::nat. i \<le> 0 \<Longrightarrow> length (examplePage 0 2) \<le> 5"
    by (simp add: length_examplePage)
  have e: "\<And>i::nat. i < 0 \<Longrightarrow> \<not> length (examplePage 0 2) < 5" by simp
  have f: "length (examplePage 0 2) < 5" by (simp add: length_examplePage)
  have g: "[0..<Suc 3] = [0, 1, 2, 3::nat]" using upt_4 by simp
  have four: "paginate fourPages ProjectsUrl projectRef (lit ''t'') 5 0 [] emptyState =
     Some (Inr (map projectRef (concat (map servedPage [0, 1, 2, 3]))),
       emptyState\<lparr>requests := map (pageRequest ProjectsUrl (lit ''t'') 5) [0, 5, 10, 15]\<rparr>)"
    using pagination_until_short_page [where server = fourPages and pages = servedPage
        and k = 3 and limit = 5 and format = projectRef and s = emptyState
        and pageUrl = ProjectsUrl and token = "lit ''t''", OF a h b c]
    unfolding g by (simp add: emptyState_def)
  have one: "paginate onePage ProjectsUrl projectRef (lit ''t'') 5 0 [] emptyState =
     Some (Inr (map projectRef (examplePage 0 2)),
       emptyState\<lparr>requests := [pageRequest ProjectsUrl (lit ''t'') 5 0]\<rparr>)"
    using pagination_until_short_page [where server = onePage and pages = "\<lambda>i. examplePage 0 2"
        and k = 0 and limit = 5 and format = projectRef and s = emptyState
        and pageUrl = ProjectsUrl and token = "lit ''t''", OF d h0 e f]
    by (simp add: emptyState_def)
  have len: "length (concat (map servedPage [0, 1, 2, 3])) = 18"
    by (simp add: servedPage_def length_examplePage)
  from four one len show ?thesis by simp
qed

text \<open>
  The test of the loop is \<^verbatim>\<open>projectsData.length === limit\<close>, so the bound on the page
  size is needed: a server that answers the request for 5 items with 7 ends the loop
  after one request.
\<close>

lemma oversized_page_ends_pagination:
  "paginate sevenFirst ProjectsUrl projectRef (lit ''t'') 5 0 [] emptyState =
     Some (Inr (map projectRef (examplePage 0 7)),
       emptyState\<lparr>requests := [pageRequest ProjectsUrl (lit ''t'') 5 0]\<rparr>)"
proof -
  have a: "sevenFirst (pageRequest ProjectsUrl (lit ''t'') 5 0) = Resolved 200 (examplePage 0 7)"
    by (simp add: sevenFirst_def pageRequest_def)
  have b: "length (examplePage 0 7) \<noteq> 5" by (simp add: length_examplePage)
  from paginate_last_page [where server = sevenFirst and items = "examplePage 0 7"
      and format = projectRef and acc = "[]" and s = emptyState, OF a b]
  show ?thesis by (simp add: emptyState_def)
qed

section \<open>The stored project: properties\<close>



section \<open>Runs on example inputs\<close>

lemma affirmative_yes: "affirmative (lit ''yes'')"
  by (simp add: affirmative_def toLowerCase_def lowerUnit_def lit_def)

lemma not_affirmative_no: "\<not> affirmative (lit ''no'')"
  by (simp add: affirmative_def toLowerCase_def lowerUnit_def lit_def)

lemma authenticate_example:
  "authenticate tokenServer (exampleConfig (Some (lit ''secret'')) None) s =
     (Inr (lit ''abc''), s\<lparr>requests := requests s @ [authRequest]\<rparr>)"
  by (simp add: authenticate_def authConfigOf_def provided_def trim_def isWhiteSpace_def
      exampleConfig_def request_def send_def andThen_def pure_def tokenServer_def
      extractToken_def cookieToken_def startsWith_def split_def semicolon_def equalsSign_def
      element_def truthy_def bodyJwt_def authRequest_def lit_def)

lemma exampleConfig_templates:
  "replaceCustomer (authUrlTemplate (exampleConfig pw tok)) = pure ()"
  "replaceCustomer (authUrlV2Template (exampleConfig pw tok)) = pure ()"
  "replaceCustomer (projectsUrlTemplate (exampleConfig pw tok)) = pure ()"
  "replaceCustomer (setPropertyUrlTemplate (exampleConfig pw tok)) = pure ()"
  by (simp_all add: exampleConfig_def replaceCustomer_def)

lemma exampleWorld_sel:
  "answer (exampleWorld projects roles) ProjectListJson = lit ''yes''"
  "answer (exampleWorld projects roles) ProjectListCsv = lit ''no''"
  "answer (exampleWorld projects roles) ProjectDetailsCsv = lit ''no''"
  "authServer (exampleWorld projects roles) = tokenServer"
  "projectServer (exampleWorld projects roles) = projects"
  "roleServer (exampleWorld projects roles) = roles"
  "userServer (exampleWorld projects roles) = (\<lambda>r. Resolved 200 [exampleUser])"
  by (simp_all add: exampleWorld_def)

lemma startState_sel:
  "files (startState existing) ConfigJson =
     Present (ConfigDoc (exampleConfig (Some (lit ''secret'')) None))"
  "files (startState []) ProjectListJson = Absent"
  "files (startState []) ProjectListCsv = Absent"
  "files (startState []) ProjectDetailsCsv = Absent"
  "requests (startState existing) = []"
  "console (startState existing) = []"
  by (simp_all add: startState_def exampleFiles_def)

lemma beforeProjects_example:
  "beforeProjects (exampleWorld projects roles) (startState []) =
     (Inr (lit ''abc''), (startState [])\<lparr>requests := [authRequest]\<rparr>)"
  by (simp add: beforeProjects_def confirmDelete_def fileExists_def andThen_def pure_def
      readConfig_def readFile_def exampleConfig_templates exampleWorld_sel startState_sel
      authenticate_example)

section \<open>A failed page fetch\<close>

text \<open>
  In the branches script the request of the loop is inside a \<^verbatim>\<open>try\<close>: a rejected
  request, like a status other than 200, ends the loop with the branches collected so far.
\<close>

lemma fetchBranchPages_rejected:
  assumes "server \<lparr>verb = GET, url = BranchesUrl offset, bearer = Some token, data = NoData\<rparr> =
      Rejected e"
  shows "fetchBranchPages server token offset acc s =
         Some (Inr acc,
           s\<lparr>requests := requests s @
                [\<lparr>verb = GET, url = BranchesUrl offset, bearer = Some token, data = NoData\<rparr>],
              console := console s @ [FetchError (RequestRejected e)]\<rparr>)"
  using assms by (subst fetchBranchPages.simps) (simp add: send_def)

lemma fetchBranchPages_status:
  assumes "server \<lparr>verb = GET, url = BranchesUrl offset, bearer = Some token, data = NoData\<rparr> =
      Resolved status items"
    and "status \<noteq> 200"
  shows "fetchBranchPages server token offset acc s =
         Some (Inr acc,
           s\<lparr>requests := requests s @
                [\<lparr>verb = GET, url = BranchesUrl offset, bearer = Some token, data = NoData\<rparr>],
              console := console s @ [HttpError status]\<rparr>)"
  using assms by (subst fetchBranchPages.simps) (simp add: send_def)

text \<open>
  Claim C4. In the project-properties script the request of the loop is under the outer
  \<^verbatim>\<open>try\<close> only. When the second page fetch fails in transport after a full first page,
  the run ends as failed: the five projects of the first page are dropped, and neither
  \<^verbatim>\<open>projectList.json\<close> nor \<^verbatim>\<open>projectList.csv\<close> is written.
\<close>

theorem rejected_page_aborts_project_run:
  "getProjectProperties (exampleWorld failingSecond rejectFirst) (startState []) =
     Some (Failed (RequestRejected None),
       (startState [])\<lparr>requests := [authRequest, pageRequest ProjectsUrl (lit ''abc'') 5 0,
                                      pageRequest ProjectsUrl (lit ''abc'') 5 5],
                        console := [ErrorLogged (RequestRejected None)]\<rparr>) \<and>
   files (startState []) ProjectListJson = Absent \<and>
   files (startState []) ProjectListCsv = Absent"
proof -
  have a: "failingSecond (pageRequest ProjectsUrl (lit ''abc'') 5 0) = Resolved 200 (examplePage 0 5)"
    by (simp add: failingSecond_def pageRequest_def)
  have b: "length (examplePage 0 5) = 5" by (simp add: examplePage_def)
  have c: "failingSecond (pageRequest ProjectsUrl (lit ''abc'') 5 (0 + 5)) = Rejected None"
    by (simp add: failingSecond_def pageRequest_def)
  have "paginate failingSecond ProjectsUrl formatProject (lit ''abc'') 5 0 []
          ((startState [])\<lparr>requests := [authRequest]\<rparr>) =
        Some (Inl (Throw (RequestRejected None)),
          (startState [])\<lparr>requests := [authRequest, pageRequest ProjectsUrl (lit ''abc'') 5 0,
                                      pageRequest ProjectsUrl (lit ''abc'') 5 5]\<rparr>)"
    unfolding paginate_full_page [where server = failingSecond, OF a b]
      paginate_rejected [where server = failingSecond, OF c]
    by simp
  then show ?thesis
    by (simp add: getProjectProperties_def beforeProjects_example exampleWorld_sel finish_def
        continue_def startState_sel)
qed

section \<open>The prompt about existing output\<close>

lemma startState_existing:
  "files (startState [ProjectListJson, ProjectListCsv, ProjectDetailsCsv]) ProjectListJson =
     Present OtherContent"
  "files (startState [ProjectListJson, ProjectListCsv, ProjectDetailsCsv]) ProjectListCsv =
     Present OtherContent"
  "files (startState [ProjectListJson, ProjectListCsv, ProjectDetailsCsv]) ProjectDetailsCsv =
     Present OtherContent"
  by (simp_all add: startState_def exampleFiles_def)

text \<open>
  Claim C9. At the prompt about an existing output file, an answer other than
  \<^verbatim>\<open>yes\<close> or \<^verbatim>\<open>y\<close> (in any case) makes the script return: no file is deleted or
  written and no request is made; the only effect is the message
  \<^verbatim>\<open>Exiting script without making changes.\<close> An affirmative answer deletes that file
  and the script goes on. For the runs: a refusal at the first prompt, or at the second
  prompt when the first file is absent, ends the run as stopped, without error, with
  the files and the list of requests as they were; a refusal at the second prompt
  after \<^verbatim>\<open>yes\<close> at the first ends the run as stopped with no request, and the only file
  deleted is the one the operator confirmed.
\<close>

theorem refusal_halts_without_changes:
  "(files s p = Present c \<and> \<not> affirmative (answer w p) \<longrightarrow>
      confirmDelete (answer w) p s = (Inl Return, s\<lparr>console := console s @ [Exiting]\<rparr>) \<and>
      deleteFileIfExists (answer w) p s = (Inr False, s\<lparr>console := console s @ [Exiting]\<rparr>)) \<and>
   (files s p = Present c \<and> affirmative (answer w p) \<longrightarrow>
      confirmDelete (answer w) p s =
        (Inr (), s\<lparr>files := (files s)(p := Absent), console := console s @ [Deleted p]\<rparr>) \<and>
      deleteFileIfExists (answer w) p s =
        (Inr True, s\<lparr>files := (files s)(p := Absent), console := console s @ [Deleted p]\<rparr>)) \<and>
   (files s ProjectListJson = Present c \<and> \<not> affirmative (answer w ProjectListJson) \<longrightarrow>
      getProjectProperties w s = Some (Stopped, s\<lparr>console := console s @ [Exiting]\<rparr>) \<and>
      getProjectUserInformation w s = Some (Stopped, s\<lparr>console := console s @ [Exiting]\<rparr>)) \<and>
   (files s BranchesListJson = Present c \<and> \<not> affirmative (answer w BranchesListJson) \<longrightarrow>
      fetchBranchesWithAuth w s = Some (Stopped, s\<lparr>console := console s @ [Exiting]\<rparr>)) \<and>
   (files s ProjectListJson = Absent \<and> files s ProjectListCsv = Present c \<and>
    \<not> affirmative (answer w ProjectListCsv) \<longrightarrow>
      getProjectProperties w s = Some (Stopped, s\<lparr>console := console s @ [Exiting]\<rparr>)) \<and>
   (files s ProjectListJson = Absent \<and> files s ProjectDetailsCsv = Present c \<and>
    \<not> affirmative (answer w ProjectDetailsCsv) \<longrightarrow>
      getProjectUserInformation w s = Some (Stopped, s\<lparr>console := console s @ [Exiting]\<rparr>)) \<and>
   (files s ProjectListJson = Present c' \<and> affirmative (answer w ProjectListJson) \<and>
    files s ProjectListCsv = Present c \<and> \<not> affirmative (answer w ProjectListCsv) \<longrightarrow>
      getProjectProperties w s =
        Some (Stopped, s\<lparr>files := (files s)(ProjectListJson := Absent),
                          console := console s @ [Deleted ProjectListJson, Exiting]\<rparr>)) \<and>
   (files s ProjectListJson = Present c' \<and> affirmative (answer w ProjectListJson) \<and>
    files s ProjectDetailsCsv = Present c \<and> \<not> affirmative (answer w ProjectDetailsCsv) \<longrightarrow>
      getProjectUserInformation w s =
        Some (Stopped, s\<lparr>files := (files s)(ProjectListJson := Absent),
                          console := console s @ [Deleted ProjectListJson, Exiting]\<rparr>))"
  by (simp add: getProjectProperties_def beforeProjects_def getProjectUserInformation_def
      beforeUserProjects_def fetchBranchesWithAuth_def beforeBranches_def
      confirmDelete_def deleteFileIfExists_def fileExists_def unlink_def
      andThen_def pure_def log_def finish_def)

theorem refusal_halts_without_changes_witness:
  "confirmDelete (answer refusingWorld) ProjectListCsv (startState [ProjectListCsv]) =
     (Inl Return, (startState [ProjectListCsv])\<lparr>console := [Exiting]\<rparr>) \<and>
   getProjectProperties refusingWorld (startState [ProjectListJson]) =
     Some (Stopped, (startState [ProjectListJson])\<lparr>console := [Exiting]\<rparr>) \<and>
   getProjectUserInformation refusingWorld (startState [ProjectListJson]) =
     Some (Stopped, (startState [ProjectListJson])\<lparr>console := [Exiting]\<rparr>) \<and>
   getProjectProperties (exampleWorld fourPages rejectFirst)
       (startState [ProjectListJson, ProjectListCsv, ProjectDetailsCsv]) =
     Some (Stopped,
       (startState [ProjectListJson, ProjectListCsv, ProjectDetailsCsv])
         \<lparr>files := (files (startState [ProjectListJson, ProjectListCsv, ProjectDetailsCsv]))
                     (ProjectListJson := Absent),
          console := [Deleted ProjectListJson, Exiting]\<rparr>) \<and>
   getProjectUserInformation (exampleWorld fourPages rejectFirst)
       (startState [ProjectListJson, ProjectListCsv, ProjectDetailsCsv]) =
     Some (Stopped,
       (startState [ProjectListJson, ProjectListCsv, ProjectDetailsCsv])
         \<lparr>files := (files (startState [ProjectListJson, ProjectListCsv, ProjectDetailsCsv]))
                     (ProjectListJson := Absent),
          console := [Deleted ProjectListJson, Exiting]\<rparr>)"
proof -
  have n: "\<And>p. \<not> affirmative (answer refusingWorld p)"
    by (simp add: refusingWorld_def not_affirmative_no)
  have f1: "files (startState [ProjectListCsv]) ProjectListCsv = Present OtherContent"
    "files (startState [ProjectListJson]) ProjectListJson = Present OtherContent"
    by (simp_all add: startState_def exampleFiles_def)
  have y: "affirmative (answer (exampleWorld fourPages rejectFirst) ProjectListJson)"
    "\<not> affirmative (answer (exampleWorld fourPages rejectFirst) ProjectListCsv)"
    "\<not> affirmative (answer (exampleWorld fourPages rejectFirst) ProjectDetailsCsv)"
    by (simp_all add: exampleWorld_sel affirmative_yes not_affirmative_no)
  from refusal_halts_without_changes [where s = "startState [ProjectListCsv]"
      and p = ProjectListCsv and c = OtherContent and w = refusingWorld]
    refusal_halts_without_changes [where s = "startState [ProjectListJson]"
      and p = ProjectListJson and c = OtherContent and w = refusingWorld]
    refusal_halts_without_changes [where
      s = "startState [ProjectListJson, ProjectListCsv, ProjectDetailsCsv]"
      and p = ProjectListJson and c = OtherContent and c' = OtherContent
      and w = "exampleWorld fourPages rejectFirst"]
  show ?thesis
    by (simp add: n f1 y startState_existing startState_sel)
qed

section \<open>A failed fetch for one item\<close>

lemma beforeUserProjects_example:
  "beforeUserProjects (exampleWorld projects roles) (startState []) =
     (Inr (lit ''abc''), (startState [])\<lparr>requests := [authRequest]\<rparr>)"
  by (simp add: beforeUserProjects_def deleteFileIfExists_def fileExists_def andThen_def pure_def
      readConfig_def readFile_def exampleConfig_templates exampleWorld_sel startState_sel
      authenticate_example)

text \<open>
  In the set-properties script the request for one project is inside a \<^verbatim>\<open>try\<close>: the loop
  never throws and issues one request for every project of the list, whatever the server
  answers.
\<close>

lemma setEach_continues:
  "fst (setEach server token projectList s) = Inr () \<and>
   requests (snd (setEach server token projectList s)) =
     requests s @
     map (\<lambda>project. \<lparr>verb = POST, url = SetPropertyUrl, bearer = Some token,
                       data = PropertiesData [sp_id project] (sp_properties project)\<rparr>) projectList"
proof (induction projectList arbitrary: s)
  case Nil
  show ?case by simp
next
  case (Cons project rest)
  show ?case
    by (cases "server \<lparr>verb = POST, url = SetPropertyUrl, bearer = Some token,
                       data = PropertiesData [sp_id project] (sp_properties project)\<rparr>")
      (simp_all add: send_def Cons.IH)
qed

text \<open>
  In the user-information script a role-assignments response with a status other than 200
  is logged and the project is skipped.
\<close>

lemma fetchDetails_skips_status:
  assumes "server (rolesRequest token (ref_id project)) = Resolved status included"
    and "status \<noteq> 200"
  shows "fetchDetails server token allGroups (project # rest) projectDetails s =
         fetchDetails server token allGroups rest projectDetails
           (s\<lparr>requests := requests s @ [rolesRequest token (ref_id project)],
              console := console s @ [HttpError status]\<rparr>)"
  using assms by (simp add: request_def send_def andThen_def pure_def rolesRequest_def)

text \<open>
  Claim C3. In the user-information script the role-assignments request is under the
  outer \<^verbatim>\<open>try\<close> only. With the projects \<^verbatim>\<open>0\<close> and \<^verbatim>\<open>1\<close>, when the request for project
  \<^verbatim>\<open>0\<close> is rejected with status 500, the run ends as failed: no request is made for
  project \<^verbatim>\<open>1\<close>, whose request the server would answer, and \<^verbatim>\<open>projectDetails.csv\<close> is
  not written.
\<close>

theorem rejected_role_fetch_aborts_run:
  "getProjectUserInformation (exampleWorld onePage rejectFirst) (startState []) =
     Some (Failed (RequestRejected (Some 500)),
       (startState [])
         \<lparr>files := (files (startState []))(ProjectListJson := Present (ProjectRefsDoc twoRefs)),
          requests := [authRequest, pageRequest ProjectsUrl (lit ''abc'') 5 0,
                       pageRequest UsersUrl (lit ''abc'') 50 0,
                       rolesRequest (lit ''abc'') (decimal 0)],
          console := [Saved ProjectListJson, ErrorLogged (RequestRejected (Some 500))]\<rparr>) \<and>
   map ref_id twoRefs = [decimal 0, decimal 1] \<and>
   rejectFirst (rolesRequest (lit ''abc'') (decimal 1)) = Resolved 200 [] \<and>
   files (startState []) ProjectDetailsCsv = Absent"
proof -
  have a: "onePage (pageRequest ProjectsUrl (lit ''abc'') 5 0) = Resolved 200 (examplePage 0 2)"
    by (simp add: onePage_def)
  have b: "length (examplePage 0 2) \<noteq> 5" by (simp add: examplePage_def)
  have p1: "paginate onePage ProjectsUrl projectRef (lit ''abc'') 5 0 []
          ((startState [])\<lparr>requests := [authRequest]\<rparr>) =
        Some (Inr twoRefs,
          (startState [])\<lparr>requests := [authRequest, pageRequest ProjectsUrl (lit ''abc'') 5 0]\<rparr>)"
    unfolding paginate_last_page [where server = onePage, OF a b] by (simp add: twoRefs_def)
  have c: "(\<lambda>r. Resolved 200 [exampleUser]) (pageRequest UsersUrl (lit ''abc'') 50 0) =
      Resolved 200 [exampleUser]" by simp
  have d: "length [exampleUser] \<noteq> 50" by simp
  have p2: "\<And>s. paginate (\<lambda>r. Resolved 200 [exampleUser]) UsersUrl formatUser (lit ''abc'') 50 0 [] s =
        Some (Inr [formatUser exampleUser],
          s\<lparr>requests := requests s @ [pageRequest UsersUrl (lit ''abc'') 50 0]\<rparr>)"
    unfolding paginate_last_page [where server = "\<lambda>r. Resolved 200 [exampleUser]", OF c d] by simp
  have g: "groupUsers [] [formatUser exampleUser] = Inr [(lit ''g1'', [formatUser exampleUser])]"
    by (simp add: formatUser_def exampleUser_def addToGroup_def objectPrototypeNames_def
        protoName_def inheritedMethods_def lit_def)
  have ids: "map ref_id twoRefs = [decimal 0, decimal 1]"
    by (simp add: twoRefs_def examplePage_def projectRef_def exampleProject_def upt_rec)
  have refs: "twoRefs = [\<lparr>ref_id = decimal 0, ref_name = lit ''P'' @ decimal 0\<rparr>,
                         \<lparr>ref_id = decimal 1, ref_name = lit ''P'' @ decimal 1\<rparr>]"
    by (simp add: twoRefs_def examplePage_def projectRef_def exampleProject_def upt_rec)
  have f: "\<And>s. fetchDetails rejectFirst (lit ''abc'') [(lit ''g1'', [formatUser exampleUser])] twoRefs [] s =
      (Inl (Throw (RequestRejected (Some 500))),
       s\<lparr>requests := requests s @ [rolesRequest (lit ''abc'') (decimal 0)]\<rparr>)"
    by (simp add: refs request_def send_def andThen_def rejectFirst_def throw_def rolesRequest_def)
  have r: "rejectFirst (rolesRequest (lit ''abc'') (decimal 1)) = Resolved 200 []"
    by (simp add: rejectFirst_def rolesRequest_def decimal.simps)
  have ud: "\<And>s. userDetails (exampleWorld onePage rejectFirst) (lit ''abc'') twoRefs
        [formatUser exampleUser] s =
      (Inl (Throw (RequestRejected (Some 500))),
       s\<lparr>requests := requests s @ [rolesRequest (lit ''abc'') (decimal 0)]\<rparr>)"
    unfolding userDetails_def g by (simp add: exampleWorld_sel andThen_def f)
  have run: "getProjectUserInformation (exampleWorld onePage rejectFirst) (startState []) =
     Some (Failed (RequestRejected (Some 500)),
       (startState [])
         \<lparr>files := (files (startState []))(ProjectListJson := Present (ProjectRefsDoc twoRefs)),
          requests := [authRequest, pageRequest ProjectsUrl (lit ''abc'') 5 0,
                       pageRequest UsersUrl (lit ''abc'') 50 0,
                       rolesRequest (lit ''abc'') (decimal 0)],
          console := [Saved ProjectListJson, ErrorLogged (RequestRejected (Some 500))]\<rparr>)"
    unfolding getProjectUserInformation_def beforeUserProjects_example
    by (simp add: exampleWorld_sel p1 p2 continue_def saveProjectRefs_def andThen_def
        writeFile_def log_def pure_def startState_sel ud finish_def
        del: groupUsers.simps fetchDetails.simps)
  from run ids r startState_sel(4) show ?thesis by blast
qed

section \<open>Correlating projects and branches: properties\<close>

lemma map_of_assign: "map_of (assign kvs k v) = (map_of kvs)(k \<mapsto> v)"
  by (induction kvs) (auto simp: fun_eq_iff)

lemma keys_assign:
  "map fst (assign kvs k v) = (if k \<in> fst ` set kvs then map fst kvs else map fst kvs @ [k])"
  by (induction kvs) force+

lemma distinct_assign: "distinct (map fst kvs) \<Longrightarrow> distinct (map fst (assign kvs k v))"
  by (simp add: keys_assign)

lemma set_keys_assign: "fst ` set (assign kvs k v) = insert k (fst ` set kvs)"
  using keys_assign [of kvs k v] by (metis (no_types, lifting) insert_absorb list.set_map
      list.simps(15) rotate1.simps(2) set_rotate1)

lemma foldl_setEntry:
  "protoName \<notin> sp_id ` set ps \<Longrightarrow>
   foldl (\<lambda>m p. setEntry m (sp_id p) \<lparr>e_name = sp_name p, e_branches = []\<rparr>) m ps =
     m\<lparr>own := ownAfter (own m) ps\<rparr>"
  by (induction ps arbitrary: m) (auto simp: ownAfter_def setEntry_def)

lemma keys_ownAfter: "fst ` set (ownAfter kvs ps) = fst ` set kvs \<union> sp_id ` set ps"
  by (induction ps arbitrary: kvs) (auto simp: ownAfter_def set_keys_assign)

lemma distinct_ownAfter: "distinct (map fst kvs) \<Longrightarrow> distinct (map fst (ownAfter kvs ps))"
  by (induction ps arbitrary: kvs) (auto simp: ownAfter_def distinct_assign)

lemma map_of_ownAfter:
  "map_of (ownAfter kvs ps) k =
     (if k \<in> sp_id ` set ps
      then Some \<lparr>e_name = sp_name (last (filter (\<lambda>q. sp_id q = k) ps)), e_branches = []\<rparr>
      else map_of kvs k)"
proof (induction ps arbitrary: kvs)
  case Nil
  show ?case by (simp add: ownAfter_def)
next
  case (Cons p ps)
  have "ownAfter kvs (p # ps) = ownAfter (assign kvs (sp_id p) \<lparr>e_name = sp_name p, e_branches = []\<rparr>) ps"
    by (simp add: ownAfter_def)
  then show ?case
    by (auto simp: Cons.IH map_of_assign filter_empty_conv)
qed

lemma buildProjectMap_own:
  "protoName \<notin> sp_id ` set ps \<Longrightarrow>
   buildProjectMap ps = \<lparr>own = ownAfter [] ps, proto = None\<rparr>"
  by (simp add: buildProjectMap_def foldl_setEntry)

lemma getEntry_plain:
  assumes "proto m = None" and "protoName \<notin> fst ` set (own m)"
    and "k \<in> fst ` set (own m) \<or> k \<notin> set objectPrototypeNames"
  shows "getEntry m k = (case map_of (own m) k of Some e \<Rightarrow> OwnEntry e | None \<Rightarrow> Undefined)"
proof -
  from assms(2,3) have "k \<noteq> protoName" by (auto simp: objectPrototypeNames_def)
  moreover have "map_of (own m) k = None \<Longrightarrow> k \<notin> set inheritedMethods"
    using assms(3) by (auto simp: objectPrototypeNames_def map_of_eq_None_iff)
  ultimately show ?thesis using assms(1)
    by (auto simp: getEntry_def split: option.splits)
qed

lemma addBranches_own:
  assumes "proto m = None" and "protoName \<notin> fst ` set (own m)"
    and "\<forall>b\<in>set bs. b_project b \<in> fst ` set (own m) \<or> b_project b \<notin> set objectPrototypeNames"
  shows "\<exists>m'. addBranches m bs = Inr m' \<and> proto m' = None \<and>
           map fst (own m') = map fst (own m) \<and>
           (\<forall>k. map_of (own m') k =
              map_option (\<lambda>e. e\<lparr>e_branches := e_branches e @
                   map b_name (filter (\<lambda>b. b_project b = k) bs)\<rparr>) (map_of (own m) k))"
  using assms
proof (induction bs arbitrary: m)
  case Nil
  then show ?case by (simp add: option.map_ident)
next
  case (Cons b bs)
  have ge: "getEntry m (b_project b) =
      (case map_of (own m) (b_project b) of Some e \<Rightarrow> OwnEntry e | None \<Rightarrow> Undefined)"
  proof (rule getEntry_plain)
    show "proto m = None" by (rule Cons.prems(1))
    show "protoName \<notin> fst ` set (own m)" by (rule Cons.prems(2))
    show "b_project b \<in> fst ` set (own m) \<or> b_project b \<notin> set objectPrototypeNames"
      using Cons.prems(3) by simp
  qed
  show ?case
  proof (cases "map_of (own m) (b_project b)")
    case None
    with ge have "addBranch m b = Inr m" by (simp add: addBranch_def)
    moreover from Cons.IH [of m] Cons.prems obtain m' where
      m': "addBranches m bs = Inr m'" "proto m' = None" "map fst (own m') = map fst (own m)"
        "\<forall>k. map_of (own m') k =
              map_option (\<lambda>e. e\<lparr>e_branches := e_branches e @
                   map b_name (filter (\<lambda>b. b_project b = k) bs)\<rparr>) (map_of (own m) k)"
      by auto
    ultimately show ?thesis using None
      by (auto intro!: exI [of _ m'])
  next
    case (Some e)
    define m1 where "m1 = m\<lparr>own := assign (own m) (b_project b) (e\<lparr>e_branches := e_branches e @ [b_name b]\<rparr>)\<rparr>"
    from Some ge have ab: "addBranch m b = Inr m1" by (simp add: addBranch_def m1_def)
    from Some have kin: "b_project b \<in> fst ` set (own m)"
      by (metis map_of_eq_None_iff option.distinct(1))
    have keys: "map fst (own m1) = map fst (own m)"
      using kin by (simp add: m1_def keys_assign)
    then have keys': "fst ` set (own m1) = fst ` set (own m)"
      by (metis list.set_map)
    have "\<exists>m'. addBranches m1 bs = Inr m' \<and> proto m' = None \<and>
           map fst (own m') = map fst (own m1) \<and>
           (\<forall>k. map_of (own m') k =
              map_option (\<lambda>e. e\<lparr>e_branches := e_branches e @
                   map b_name (filter (\<lambda>b. b_project b = k) bs)\<rparr>) (map_of (own m1) k))"
      using Cons.prems keys' by (intro Cons.IH) (auto simp: m1_def)
    then obtain m' where
      m': "addBranches m1 bs = Inr m'" "proto m' = None" "map fst (own m') = map fst (own m1)"
        "\<forall>k. map_of (own m') k =
              map_option (\<lambda>e. e\<lparr>e_branches := e_branches e @
                   map b_name (filter (\<lambda>b. b_project b = k) bs)\<rparr>) (map_of (own m1) k)"
      by auto
    have "\<forall>k. map_of (own m') k =
              map_option (\<lambda>e. e\<lparr>e_branches := e_branches e @
                   map b_name (filter (\<lambda>b. b_project b = k) (b # bs))\<rparr>) (map_of (own m) k)"
      using m'(4) Some by (auto simp: m1_def map_of_assign)
    with ab m' keys show ?thesis by (auto intro!: exI [of _ m'])
  qed
qed

text \<open>
  Claim C6, as the code has it. Let no project id be \<^verbatim>\<open>__proto__\<close>, and let every branch
  name a project id of the list or a string that is no property name of
  \<^verbatim>\<open>Object.prototype\<close>. Then the correlation succeeds; the keys of the map are exactly the
  project ids of the list, each once (a project without branches has an entry with an
  empty branch list); the entry of an id carries the name of the last project of the list
  with that id, which is the project's own name when the ids of the list are distinct, and
  the names of exactly the branches whose project id is that id, in branch-list order.
  A branch with any other project id leaves the map as it is.
\<close>

theorem correlation_by_project_id:
  assumes "protoName \<notin> sp_id ` set projectList"
    and "\<forall>b\<in>set branches.
           b_project b \<in> sp_id ` set projectList \<or> b_project b \<notin> set objectPrototypeNames"
  shows "\<exists>m. correlate projectList branches = Inr m \<and>
           proto m = None \<and>
           distinct (map fst (own m)) \<and>
           fst ` set (own m) = sp_id ` set projectList \<and>
           (\<forall>p\<in>set projectList.
              map_of (own m) (sp_id p) =
                Some \<lparr>e_name = sp_name (last (filter (\<lambda>q. sp_id q = sp_id p) projectList)),
                      e_branches = map b_name (filter (\<lambda>b. b_project b = sp_id p) branches)\<rparr> \<and>
              (distinct (map sp_id projectList) \<longrightarrow>
                 map_of (own m) (sp_id p) =
                   Some \<lparr>e_name = sp_name p,
                         e_branches = map b_name (filter (\<lambda>b. b_project b = sp_id p) branches)\<rparr>))"
proof -
  let ?m0 = "\<lparr>own = ownAfter [] projectList, proto = None\<rparr>"
  have b: "buildProjectMap projectList = ?m0"
    using assms(1) by (rule buildProjectMap_own)
  have keys0: "fst ` set (own ?m0) = sp_id ` set projectList"
    by (simp add: keys_ownAfter)
  have "\<exists>m'. addBranches ?m0 branches = Inr m' \<and> proto m' = None \<and>
           map fst (own m') = map fst (own ?m0) \<and>
           (\<forall>k. map_of (own m') k =
              map_option (\<lambda>e. e\<lparr>e_branches := e_branches e @
                   map b_name (filter (\<lambda>b. b_project b = k) branches)\<rparr>) (map_of (own ?m0) k))"
  proof (rule addBranches_own)
    show "proto ?m0 = None" by simp
    show "protoName \<notin> fst ` set (own ?m0)" using assms(1) keys0 by simp
    show "\<forall>b\<in>set branches. b_project b \<in> fst ` set (own ?m0) \<or>
        b_project b \<notin> set objectPrototypeNames"
      using assms(2) keys0 by simp
  qed
  then obtain m where m: "addBranches ?m0 branches = Inr m" "proto m = None"
      "map fst (own m) = map fst (own ?m0)"
      "\<forall>k. map_of (own m) k =
              map_option (\<lambda>e. e\<lparr>e_branches := e_branches e @
                   map b_name (filter (\<lambda>b. b_project b = k) branches)\<rparr>) (map_of (own ?m0) k)"
    by blast
  have c: "correlate projectList branches = Inr m"
    by (simp add: correlate_def b m(1))
  have d: "distinct (map fst (own m))"
    using m(3) distinct_ownAfter [of "[]" projectList] by simp
  have k: "fst ` set (own m) = sp_id ` set projectList"
    using m(3) keys0 by (metis list.set_map)
  have e: "\<forall>p\<in>set projectList.
              map_of (own m) (sp_id p) =
                Some \<lparr>e_name = sp_name (last (filter (\<lambda>q. sp_id q = sp_id p) projectList)),
                      e_branches = map b_name (filter (\<lambda>b. b_project b = sp_id p) branches)\<rparr>"
    using m(4) by (simp add: map_of_ownAfter)
  have l: "\<And>p. p \<in> set projectList \<Longrightarrow> distinct (map sp_id projectList) \<Longrightarrow>
      last (filter (\<lambda>q. sp_id q = sp_id p) projectList) = p"
  proof -
    fix p assume p: "p \<in> set projectList" and dist: "distinct (map sp_id projectList)"
    then have "filter (\<lambda>q. sp_id q = sp_id p) projectList = [p]"
    proof (induction projectList)
      case Nil
      then show ?case by simp
    next
      case (Cons a ps)
      then show ?case by (auto simp: filter_empty_conv image_iff)
    qed
    then show "last (filter (\<lambda>q. sp_id q = sp_id p) projectList) = p" by simp
  qed
  from c m(2) d k e l show ?thesis by (intro exI [of _ m]) auto
qed

text \<open>
  The specification's example: project \<^verbatim>\<open>p1\<close> named Alpha, branch \<^verbatim>\<open>main\<close> of \<^verbatim>\<open>p1\<close> and
  branch \<^verbatim>\<open>dev\<close> of the unknown project \<^verbatim>\<open>p9\<close>.
\<close>

theorem correlation_by_project_id_witness:
  "\<exists>m. correlate [alpha] [mainBranch, devBranch] = Inr m \<and>
        proto m = None \<and>
        distinct (map fst (own m)) \<and>
        fst ` set (own m) = {lit ''p1''} \<and>
        map_of (own m) (lit ''p1'') =
          Some \<lparr>e_name = lit ''Alpha'', e_branches = [lit ''main'']\<rparr>"
proof -
  have a: "protoName \<notin> sp_id ` set [alpha]"
    by (simp add: protoName_def alpha_def lit_def)
  have b: "\<forall>b\<in>set [mainBranch, devBranch].
           b_project b \<in> sp_id ` set [alpha] \<or> b_project b \<notin> set objectPrototypeNames"
    by (simp add: alpha_def mainBranch_def devBranch_def objectPrototypeNames_def
        inheritedMethods_def protoName_def lit_def)
  from correlation_by_project_id [OF a b] show ?thesis
    by (simp add: alpha_def mainBranch_def devBranch_def lit_def)
qed

text \<open>
  Two projects with the id \<^verbatim>\<open>p1\<close>, named Alpha and Beta: the one entry of the map
  carries the name Beta, so the first project's entry does not carry its name.
\<close>

theorem later_project_with_same_id_renames_entry:
  "correlate [alpha, beta] [] =
     Inr \<lparr>own = [(lit ''p1'', \<lparr>e_name = lit ''Beta'', e_branches = []\<rparr>)], proto = None\<rparr> \<and>
   sp_id alpha = lit ''p1'' \<and> sp_name alpha = lit ''Alpha''"
  by (simp add: correlate_def buildProjectMap_def setEntry_def protoName_def alpha_def beta_def
      lit_def)

text \<open>
  A branch whose project id is a method name of \<^verbatim>\<open>Object.prototype\<close> is not dropped:
  \<^verbatim>\<open>projectMap['constructor']\<close> is truthy and has no \<^verbatim>\<open>branches\<close>.
\<close>

lemma inherited_name_is_not_dropped:
  "correlate [alpha] [\<lparr>b_name = lit ''dev'', b_project = lit ''constructor''\<rparr>] = Inl TypeError"
  by (simp add: correlate_def buildProjectMap_def setEntry_def protoName_def alpha_def
      addBranch_def getEntry_def inheritedMethods_def lit_def)

section \<open>The CSV of projects and branches: properties\<close>

lemma decimal_nonempty: "decimal n \<noteq> []"
  by (subst decimal.simps) simp

lemma decimal_inj: "decimal m = decimal n \<Longrightarrow> m = n"
proof (induction m arbitrary: n rule: decimal.induct)
  case (1 m)
  show ?case
  proof (cases "m < 10")
    case True
    then have m: "decimal m = [48 + m]" by (subst decimal.simps) simp
    show ?thesis
    proof (cases "n < 10")
      case True
      then have "decimal n = [48 + n]" by (subst decimal.simps) simp
      with m "1.prems" show ?thesis by simp
    next
      case False
      then have "decimal n = decimal (n div 10) @ [48 + n mod 10]" by (subst decimal.simps) simp
      with m "1.prems" decimal_nonempty [of "n div 10"] show ?thesis by simp
    qed
  next
    case False
    then have m: "decimal m = decimal (m div 10) @ [48 + m mod 10]" by (subst decimal.simps) simp
    show ?thesis
    proof (cases "n < 10")
      case True
      then have "decimal n = [48 + n]" by (subst decimal.simps) simp
      with m "1.prems" decimal_nonempty [of "m div 10"] show ?thesis by simp
    next
      case n: False
      then have "decimal n = decimal (n div 10) @ [48 + n mod 10]" by (subst decimal.simps) simp
      with m "1.prems" have "decimal (m div 10) = decimal (n div 10)" "m mod 10 = n mod 10"
        by simp_all
      with "1.IH" [OF False] have "m div 10 = n div 10" "m mod 10 = n mod 10" by simp_all
      then show ?thesis by (metis div_mult_mod_eq)
    qed
  qed
qed

lemma branchField_inj: "branchField i = branchField j \<Longrightarrow> i = j"
  by (simp add: branchField_def decimal_inj)

lemma branchField_not_projectName: "branchField i \<noteq> lit ''projectName''"
  by (simp add: branchField_def lit_def)

lemma assign_new: "k \<notin> fst ` set kvs \<Longrightarrow> assign kvs k v = kvs @ [(k, v)]"
  by (induction kvs) auto

lemma foldl_assign_new:
  "distinct (map fst kvs @ map fst new) \<Longrightarrow>
   foldl (\<lambda>obj (k, v). assign obj k v) kvs new = kvs @ new"
proof (induction new arbitrary: kvs)
  case Nil
  show ?case by simp
next
  case (Cons kv new)
  obtain k v where kv: "kv = (k, v)" by (cases kv)
  from Cons.prems kv have "k \<notin> fst ` set kvs" by auto
  then have a: "assign kvs k v = kvs @ [(k, v)]" by (rule assign_new)
  from Cons.prems kv have "distinct (map fst (kvs @ [(k, v)]) @ map fst new)" by auto
  from Cons.IH [OF this] a kv show ?case by simp
qed

lemma branchObject_eq:
  "branchObject bs = zip (map (\<lambda>i. branchField (Suc i)) [0..<length bs]) bs"
proof -
  have "foldl (\<lambda>obj (index, branchName). assign obj (branchField (index + 1)) branchName) []
          (zip [0..<length bs] bs) =
        foldl (\<lambda>obj (k, v). assign obj k v) []
          (map (\<lambda>(i, b). (branchField (Suc i), b)) (zip [0..<length bs] bs))"
    by (simp add: foldl_map case_prod_unfold)
  also have "map (\<lambda>(i, b). (branchField (Suc i), b)) (zip [0..<length bs] bs) =
        zip (map (\<lambda>i. branchField (Suc i)) [0..<length bs]) bs"
    by (simp add: zip_map1)
  also have "foldl (\<lambda>obj (k, v). assign obj k v) [] \<dots> = [] @ \<dots>"
    by (rule foldl_assign_new) (auto simp: distinct_map inj_on_def dest: branchField_inj)
  finally show ?thesis by (simp add: branchObject_def)
qed

lemma csvRecord_eq:
  "csvRecord p =
     (lit ''projectName'', e_name p) #
     zip (map (\<lambda>i. branchField (Suc i)) [0..<length (e_branches p)]) (e_branches p)"
proof -
  have "foldl (\<lambda>obj (k, v). assign obj k v) [(lit ''projectName'', e_name p)]
          (branchObject (e_branches p)) =
        [(lit ''projectName'', e_name p)] @ branchObject (e_branches p)"
    by (rule foldl_assign_new)
      (auto simp: branchObject_eq distinct_map inj_on_def
        branchField_not_projectName [symmetric] dest: branchField_inj)
  then show ?thesis by (simp add: csvRecord_def branchObject_eq)
qed

lemma length_csvRecord: "length (csvRecord p) - Suc 0 = length (e_branches p)"
  by (simp add: csvRecord_eq)

lemma maxCount_Max: "counts \<noteq> [] \<Longrightarrow> maxCount counts = Max (set counts)"
proof (induction counts)
  case Nil
  then show ?case by simp
next
  case (Cons c cs)
  show ?case
  proof (cases "cs = []")
    case True
    then show ?thesis by (simp add: maxCount_def)
  next
    case False
    with Cons.IH have "maxCount cs = Max (set cs)" by simp
    with False show ?thesis by (simp add: maxCount_def)
  qed
qed

lemma map_of_csvRecord_branch:
  "map_of (csvRecord p) (branchField (Suc i)) =
     (if i < length (e_branches p) then Some (e_branches p ! i) else None)"
proof -
  let ?bs = "e_branches p"
  have d: "distinct (map (\<lambda>i. branchField (Suc i)) [0..<length ?bs])"
    by (auto simp: distinct_map inj_on_def dest: branchField_inj)
  show ?thesis
  proof (cases "i < length ?bs")
    case True
    have "map_of (zip (map (\<lambda>i. branchField (Suc i)) [0..<length ?bs]) ?bs)
            (map (\<lambda>i. branchField (Suc i)) [0..<length ?bs] ! i) = Some (?bs ! i)"
      by (rule map_of_zip_nth) (use True d in simp_all)
    with True show ?thesis
      by (simp add: csvRecord_eq branchField_not_projectName)
  next
    case False
    have "branchField (Suc i) \<notin> set (map (\<lambda>i. branchField (Suc i)) [0..<length ?bs])"
      using False by (auto dest: branchField_inj)
    then have "map_of (zip (map (\<lambda>i. branchField (Suc i)) [0..<length ?bs]) ?bs)
            (branchField (Suc i)) = None"
      by simp
    with False show ?thesis
      by (simp add: csvRecord_eq branchField_not_projectName)
  qed
qed

lemma csvRow_csvRecord:
  assumes "length (e_branches p) \<le> n"
  shows "csvRow (lit ''projectName'' # map (\<lambda>i. branchField (Suc i)) [0..<n]) (csvRecord p) =
         Text (e_name p) # map Text (e_branches p) @ replicate (n - length (e_branches p)) Blank"
proof -
  let ?bs = "e_branches p"
  have "map (\<lambda>f. case map_of (csvRecord p) f of None \<Rightarrow> Blank | Some v \<Rightarrow> Text v)
          (map (\<lambda>i. branchField (Suc i)) [0..<n]) =
        map Text ?bs @ replicate (n - length ?bs) Blank"
  proof (rule nth_equalityI)
    show "length (map (\<lambda>f. case map_of (csvRecord p) f of None \<Rightarrow> Blank | Some v \<Rightarrow> Text v)
          (map (\<lambda>i. branchField (Suc i)) [0..<n])) =
        length (map Text ?bs @ replicate (n - length ?bs) Blank)"
      using assms by simp
  next
    fix i assume "i < length (map (\<lambda>f. case map_of (csvRecord p) f of None \<Rightarrow> Blank | Some v \<Rightarrow> Text v)
          (map (\<lambda>i. branchField (Suc i)) [0..<n]))"
    then have i: "i < n" by simp
    then show "map (\<lambda>f. case map_of (csvRecord p) f of None \<Rightarrow> Blank | Some v \<Rightarrow> Text v)
          (map (\<lambda>i. branchField (Suc i)) [0..<n]) ! i =
        (map Text ?bs @ replicate (n - length ?bs) Blank) ! i"
      by (simp add: map_of_csvRecord_branch nth_append)
  qed
  moreover have "map_of (csvRecord p) (lit ''projectName'') = Some (e_name p)"
    by (simp add: csvRecord_eq)
  ultimately show ?thesis by (simp add: csvRow_def)
qed

text \<open>
  Claim C7. For a non-empty collection of correlated records, the header of the exported
  CSV is \<^verbatim>\<open>projectName\<close> followed by \<^verbatim>\<open>branchName1\<close> ... \<^verbatim>\<open>branchNameM\<close>, where \<open>M\<close> is the
  largest number of branches of any record; the row of a record has its project name, its
  branch names in order, and blank cells in the remaining \<open>M - n\<close> branch columns.
\<close>

theorem csv_header_is_widest_record:
  assumes "projects \<noteq> []"
  shows "exportBranches projects =
     CsvDoc
       (lit ''projectName'' #
        map (\<lambda>i. branchField (Suc i)) [0..<Max (set (map (\<lambda>p. length (e_branches p)) projects))])
       (map (\<lambda>p. Text (e_name p) # map Text (e_branches p) @
                replicate (Max (set (map (\<lambda>p. length (e_branches p)) projects)) -
                           length (e_branches p)) Blank) projects)"
proof -
  let ?n = "Max (set (map (\<lambda>p. length (e_branches p)) projects))"
  have counts: "map (\<lambda>project. length project - 1) (map csvRecord projects) =
      map (\<lambda>p. length (e_branches p)) projects"
    by (simp add: length_csvRecord)
  have n: "maxCount (map (\<lambda>project. length project - 1) (map csvRecord projects)) = ?n"
    unfolding counts using assms by (intro maxCount_Max) simp
  have f: "csvFields (map csvRecord projects) =
      lit ''projectName'' # map (\<lambda>i. branchField (Suc i)) [0..<?n]"
    unfolding csvFields_def n by simp
  have le: "\<And>p. p \<in> set projects \<Longrightarrow> length (e_branches p) \<le> ?n"
    by (intro Max_ge) auto
  have rows: "map (csvRow (lit ''projectName'' # map (\<lambda>i. branchField (Suc i)) [0..<?n]))
        (map csvRecord projects) =
      map (\<lambda>p. Text (e_name p) # map Text (e_branches p) @
                replicate (?n - length (e_branches p)) Blank) projects"
    using le by (simp add: csvRow_csvRecord)
  show ?thesis
    unfolding exportBranches_def Let_def f parseAsync_def rows ..
qed

text \<open>
  Records with two branches and with none: two branch columns, both blank in the second
  row.
\<close>

theorem csv_header_is_widest_record_witness:
  "exportBranches twoEntries =
     CsvDoc [lit ''projectName'', lit ''branchName1'', lit ''branchName2'']
       [[Text (lit ''Alpha''), Text (lit ''main''), Text (lit ''dev'')],
        [Text (lit ''Beta''), Blank, Blank]]"
proof -
  have a: "twoEntries \<noteq> []" by (simp add: twoEntries_def)
  have m: "Max (set (map (\<lambda>p. length (e_branches p)) twoEntries)) = 2"
    by (simp add: twoEntries_def)
  have u: "[0..<2] = [0, Suc 0]" by (simp add: upt_rec)
  have f: "branchField (Suc 0) = lit ''branchName1''" "branchField (Suc (Suc 0)) = lit ''branchName2''"
    by (simp_all add: branchField_def decimal.simps lit_def)
  from csv_header_is_widest_record [OF a] show ?thesis
    unfolding m u by (simp add: twoEntries_def numeral_2_eq_2 f)
qed

section \<open>Group members: properties\<close>












lemma formatUser_id: "formatUser u = u"
  by (simp add: formatUser_def)

text \<open>
  A user whose group-id list is \<^verbatim>\<open>[g1, g1]\<close> is a member of \<^verbatim>\<open>g1\<close> twice, while the list
  of the users whose group-id list contains \<^verbatim>\<open>g1\<close> has that user once.
\<close>

lemma repeated_group_id_repeats_member:
  "groupUsers [] [listedTwice] = Inr [(lit ''g1'', [listedTwice, listedTwice])] \<and>
   map_of (gm_own (groups (projectDetail [(lit ''g1'', [listedTwice, listedTwice])]
       exampleProjectRef [devsGroup]))) (lit ''g1'') =
     Some \<lparr>groupName = lit ''Devs'', members = Members [listedTwice, listedTwice]\<rparr> \<and>
   usersOfGroup_spec [listedTwice] (lit ''g1'') = [listedTwice]"
  by (simp add: listedTwice_def addToGroup_def objectPrototypeNames_def protoName_def
      inheritedMethods_def projectDetail_def groupMembersOf_def devsGroup_def setGroup_def
      membersOf_def usersOfGroup_spec_def lit_def)

text \<open>
  The rows of a project whose groups have no inherited id: for every group of the
  details, in the order of its own keys, one row for each member, then the rows of the
  individual users.
\<close>

lemma groupRows_own:
  "\<forall>g\<in>set gs. \<exists>us. members g = Members us \<Longrightarrow>
   groupRows d (map OwnGroup gs) =
     Inr (concat (map (\<lambda>g. case members g of Members us \<Rightarrow> map (memberRow d g) us
                                           | NotAnArray \<Rightarrow> []) gs))"
  by (induction gs) auto

lemma inherited_group_id_fails_export:
  "detailRows (projectDetail [] exampleProjectRef [GroupsResource (lit ''toString'') (lit ''Devs'')]) =
     Inl TypeError"
  by (simp add: detailRows_def projectDetail_def groupMembersOf_def setGroup_def membersOf_def
      objectPrototypeNames_def protoName_def inheritedMethods_def forInGroups_def
      ownProperties_def isArrayIndex_def isDigit_def lit_def)



















section \<open>Further properties\<close>

text \<open>
  In the branches script a rejected page request, like a response with a status other
  than 200, ends the loop with the branches collected so far and a logged error.
\<close>

lemma fetchBranchPages_full:
  assumes "server (branchRequest token offset) = Resolved 200 items"
    and "length items = 500"
  shows "fetchBranchPages server token offset acc s =
         fetchBranchPages server token (offset + 500) (acc @ items)
           (s\<lparr>requests := requests s @ [branchRequest token offset]\<rparr>)"
  using assms by (subst fetchBranchPages.simps) (simp add: send_def branchRequest_def)

theorem branch_fetch_failure_keeps_items:
  "(server (branchRequest token offset) = Rejected e \<longrightarrow>
      fetchBranchPages server token offset acc s =
        Some (Inr acc,
          s\<lparr>requests := requests s @ [branchRequest token offset],
             console := console s @ [FetchError (RequestRejected e)]\<rparr>)) \<and>
   (server (branchRequest token offset) = Resolved status items \<and> status \<noteq> 200 \<longrightarrow>
      fetchBranchPages server token offset acc s =
        Some (Inr acc,
          s\<lparr>requests := requests s @ [branchRequest token offset],
             console := console s @ [HttpError status]\<rparr>))"
  using fetchBranchPages_rejected [of server offset token e acc s]
    fetchBranchPages_status [of server offset token status items acc s]
  by (simp add: branchRequest_def)

theorem branch_fetch_failure_keeps_items_witness:
  "fetchBranchPages failingBranches (lit ''abc'') 0 [] emptyState =
     Some (Inr fullBranchPage,
       emptyState\<lparr>requests := [branchRequest (lit ''abc'') 0, branchRequest (lit ''abc'') 500],
                  console := [FetchError (RequestRejected None)]\<rparr>)"
proof -
  have a: "failingBranches (branchRequest (lit ''abc'') 0) = Resolved 200 fullBranchPage"
    by (simp add: failingBranches_def branchRequest_def)
  have b: "length fullBranchPage = 500" by (simp add: fullBranchPage_def)
  have c: "failingBranches (branchRequest (lit ''abc'') (0 + 500)) = Rejected None"
    by (simp add: failingBranches_def branchRequest_def)
  from branch_fetch_failure_keeps_items [of failingBranches "lit ''abc''" "0 + 500" None
      "[] @ fullBranchPage"
      "emptyState\<lparr>requests := requests emptyState @ [branchRequest (lit ''abc'') 0]\<rparr>"] c
  have "fetchBranchPages failingBranches (lit ''abc'') (0 + 500) ([] @ fullBranchPage)
      (emptyState\<lparr>requests := requests emptyState @ [branchRequest (lit ''abc'') 0]\<rparr>) =
     Some (Inr fullBranchPage,
       emptyState\<lparr>requests := [branchRequest (lit ''abc'') 0, branchRequest (lit ''abc'') 500],
                  console := [FetchError (RequestRejected None)]\<rparr>)"
    by (simp add: emptyState_def)
  then show ?thesis
    unfolding fetchBranchPages_full [where server = failingBranches, OF a b] .
qed

lemma splitFrom_no_separator: "sep \<notin> set s \<Longrightarrow> splitFrom sep cur s = [cur @ s]"
  by (induction s arbitrary: cur) auto

lemma splitFrom_at_separator:
  "sep \<notin> set a \<Longrightarrow> splitFrom sep cur (a @ sep # rest) = (cur @ a) # splitFrom sep [] rest"
  by (induction a arbitrary: cur) auto

text \<open>
  For a cookie \<^verbatim>\<open>access_token=v\<close>, followed by nothing or by \<^verbatim>\<open>;\<close> and attributes, whose
  value \<open>v\<close> contains no \<^verbatim>\<open>=\<close>, the extracted token is \<open>v\<close>, the text between
  \<^verbatim>\<open>access_token=\<close> and the next \<^verbatim>\<open>;\<close>.
\<close>

theorem cookie_value_without_equals_sign:
  assumes "semicolon \<notin> set v" and "equalsSign \<notin> set v"
    and "rest = [] \<or> (\<exists>r. rest = semicolon # r)"
  shows "cookieToken (Some [lit ''access_token='' @ v @ rest]) = Some v \<and>
         cookieValue_spec (lit ''access_token='' @ v @ rest) = v"
proof -
  let ?name = "lit ''access_token''"
  have pre: "lit ''access_token='' = ?name @ [equalsSign]"
    by (simp add: lit_def equalsSign_def)
  have n1: "semicolon \<notin> set (lit ''access_token='')" "equalsSign \<notin> set ?name"
    by (simp_all add: lit_def semicolon_def equalsSign_def)
  have len: "length (lit ''access_token='') = 13" by (simp add: lit_def)
  have starts: "startsWith (lit ''access_token='' @ v @ rest) (lit ''access_token='')"
    by (simp add: startsWith_def)
  have first: "\<exists>more. split (lit ''access_token='' @ v @ rest) semicolon =
      (lit ''access_token='' @ v) # more"
  proof (cases "rest = []")
    case True
    with n1(1) assms(1) show ?thesis
      by (simp add: split_def splitFrom_no_separator)
  next
    case False
    with assms(3) obtain r where r: "rest = semicolon # r" by auto
    have "semicolon \<notin> set (lit ''access_token='' @ v)" using n1(1) assms(1) by simp
    from splitFrom_at_separator [OF this, of "[]" r] r show ?thesis
      by (simp add: split_def)
  qed
  have second: "split (lit ''access_token='' @ v) equalsSign = [?name, v]"
    using splitFrom_at_separator [OF n1(2), of "[]" v]
      splitFrom_no_separator [OF assms(2), of "[]"]
    by (simp add: split_def pre)
  have tok: "cookieToken (Some [lit ''access_token='' @ v @ rest]) = Some v"
    using first second starts by (auto simp: cookieToken_def element_def)
  have "takeWhile (\<lambda>c. c \<noteq> semicolon) (v @ rest) = v"
    using assms(1,3) by (auto simp: takeWhile_append)
  then have "cookieValue_spec (lit ''access_token='' @ v @ rest) = v"
    by (simp add: cookieValue_spec_def)
  with tok show ?thesis by simp
qed

theorem cookie_value_without_equals_sign_witness:
  "cookieToken (Some [lit ''access_token=abc; Path=/'']) = Some (lit ''abc'') \<and>
   cookieValue_spec (lit ''access_token=abc; Path=/'') = lit ''abc''"
proof -
  have a: "semicolon \<notin> set (lit ''abc'')" "equalsSign \<notin> set (lit ''abc'')"
    by (simp_all add: lit_def semicolon_def equalsSign_def)
  have b: "lit ''; Path=/'' = [] \<or> (\<exists>r. lit ''; Path=/'' = semicolon # r)"
    by (simp add: lit_def semicolon_def)
  have c: "lit ''access_token='' @ lit ''abc'' @ lit ''; Path=/'' = lit ''access_token=abc; Path=/''"
    by (simp add: lit_def)
  from cookie_value_without_equals_sign [OF a b] show ?thesis
    unfolding c .
qed

text \<open>
  The cookie is preferred: a non-empty cookie token is the result whatever the body
  holds; without one the \<^verbatim>\<open>jwt\<close> field of the body is the result when it is a non-empty
  string, and otherwise the extraction fails.
\<close>

theorem token_preference:
  "(\<forall>t. cookieToken (set_cookie r) = Some t \<and> t \<noteq> [] \<longrightarrow> extractToken r = Inr t) \<and>
   (\<not> truthy (cookieToken (set_cookie r)) \<longrightarrow>
      (\<forall>t. bodyJwt (body r) = Some t \<and> t \<noteq> [] \<longrightarrow> extractToken r = Inr t) \<and>
      (\<not> truthy (bodyJwt (body r)) \<longrightarrow> extractToken r = Inl NoAccessToken))"
  by (auto simp: extractToken_def truthy_def Let_def split: option.splits)

theorem token_preference_witness:
  "extractToken \<lparr>set_cookie = Some [lit ''access_token=abc; Path=/''],
                  body = Some \<lparr>jwt = Some (lit ''xyz'')\<rparr>\<rparr> = Inr (lit ''abc'') \<and>
   extractToken \<lparr>set_cookie = Some [lit ''session=1''],
                  body = Some \<lparr>jwt = Some (lit ''xyz'')\<rparr>\<rparr> = Inr (lit ''xyz'') \<and>
   extractToken \<lparr>set_cookie = None, body = None\<rparr> = Inl NoAccessToken"
  using token_preference [of "\<lparr>set_cookie = Some [lit ''access_token=abc; Path=/''],
                  body = Some \<lparr>jwt = Some (lit ''xyz'')\<rparr>\<rparr>"]
    token_preference [of "\<lparr>set_cookie = Some [lit ''session=1''],
                  body = Some \<lparr>jwt = Some (lit ''xyz'')\<rparr>\<rparr>"]
    token_preference [of "\<lparr>set_cookie = None, body = None\<rparr>"]
  by (simp add: cookieToken_def startsWith_def split_def semicolon_def equalsSign_def
      element_def truthy_def bodyJwt_def lit_def)

end
